theory Spec2Isabelle
  imports Main "HOL-Library.Word" "HOL-Library.Multiset"
begin

section \<open>Data model of pkg/sql/instrumentation.go\<close>

text \<open>
  The statement-level instrumentation controller is the Go struct
  \<^verbatim>\<open>instrumentationHelper\<close> with the methods \<^verbatim>\<open>SetOutputMode\<close>, \<^verbatim>\<open>Setup\<close>,
  \<^verbatim>\<open>Finish\<close>, the accessors and the three plan renderers. Every method has a pointer
  receiver; here a method takes the helper and returns the updated helper. Values of
  pointer, interface and func type that the code compares with \<^verbatim>\<open>nil\<close> are options.

  Calls into other packages (tracing, statement diagnostics, telemetry, the command
  result, the statistics store, logging) are recorded, in program order, as a list of
  \<open>event\<close>s that each method returns next to its results. What those packages
  compute is a parameter: the records \<open>collab\<close>, \<open>ExecutorConfig\<close>, \<open>Registry\<close>,
  \<open>appStats\<close> and \<open>planner\<close> carry it.
\<close>

subsection \<open>Plain types\<close>

text \<open>\<^verbatim>\<open>type outputMode int8\<close> with its three \<^verbatim>\<open>iota\<close> constants.\<close>

datatype outputMode = unmodifiedOutput | explainAnalyzeDebugOutput | explainAnalyzePlanOutput

text \<open>\<^verbatim>\<open>explain.Flags\<close>: the three fields the file sets.\<close>

record Flags =
  Verbose :: bool
  ShowTypes :: bool
  HideValues :: bool

definition zeroFlags :: Flags where
  "zeroFlags = \<lparr>Verbose = False, ShowTypes = False, HideValues = False\<rparr>"

text \<open>A Go \<^verbatim>\<open>error\<close> value is its message; \<^verbatim>\<open>%v\<close> prints the message.\<close>

datatype error = Error (errorText: string)

type_synonym span = nat
type_synonym callback = nat
type_synonym requestID = int
type_synonym recording = "string list"
type_synonym SQLCodec = nat
type_synonym EvalContext = nat
type_synonym Plan = nat
type_synonym PlanDistribution = nat
type_synonym Statement = string
type_synonym placeholders = "string list"
type_synonym ExplainTreePlanNode = "string list"
type_synonym stmtStatsRef = nat
type_synonym nodeID = nat
type_synonym int64 = "64 word"
type_synonym TraceAnalyzer = nat

text \<open>
  A \<^verbatim>\<open>context.Context\<close>: some base context, or a context that
  \<^verbatim>\<open>tracing.StartSnowballTrace\<close> derived from another one by attaching a span.
\<close>

datatype ctx = BaseCtx nat | CtxWithSpan ctx span

text \<open>
  \<^verbatim>\<open>phaseTimes\<close>: the seven timestamps that \<^verbatim>\<open>deterministicPhaseTimes\<close> names, each
  in nanoseconds after the zero \<^verbatim>\<open>time.Time\<close>.
\<close>

record phaseTimes =
  sessionQueryReceived :: int
  sessionStartParse :: int
  sessionEndParse :: int
  plannerStartLogicalPlan :: int
  plannerEndLogicalPlan :: int
  plannerStartExecStmt :: int
  plannerEndExecStmt :: int

definition Microsecond :: int where
  "Microsecond = 1000"

definition deterministicPhaseTimes :: phaseTimes where
  "deterministicPhaseTimes =
     \<lparr>sessionQueryReceived = 0,
      sessionStartParse = 0,
      sessionEndParse = 0 + 1 * Microsecond,
      plannerStartLogicalPlan = 0 + 1 * Microsecond,
      plannerEndLogicalPlan = 0 + 11 * Microsecond,
      plannerStartExecStmt = 0 + 11 * Microsecond,
      plannerEndExecStmt = 0 + 111 * Microsecond\<rparr>"

subsection \<open>The explain output builder\<close>

text \<open>
  Modelled from the spec: \<^verbatim>\<open>explain.OutputBuilder\<close> (package
  \<^verbatim>\<open>pkg/sql/opt/exec/explain\<close>) is not part of the sources at hand. The spec has the
  row rendering start with the synthetic header lines "planning time" and "execution
  time", so a builder is its flags and the ordered fields added so far;
  \<^verbatim>\<open>NewOutputBuilder\<close> starts with none and \<^verbatim>\<open>AddField\<close> appends one. What
  \<^verbatim>\<open>emitExplain\<close> adds and how the \<^verbatim>\<open>Build...\<close> functions render is left to \<open>collab\<close>.
\<close>

record OutputBuilder =
  obFlags :: Flags
  obEntries :: "(string \<times> string) list"

definition NewOutputBuilder :: "Flags \<Rightarrow> OutputBuilder" where
  "NewOutputBuilder flags = \<lparr>obFlags = flags, obEntries = []\<rparr>"

definition AddField :: "string \<Rightarrow> string \<Rightarrow> OutputBuilder \<Rightarrow> OutputBuilder" where
  "AddField key val ob = ob\<lparr>obEntries := obEntries ob @ [(key, val)]\<rparr>"

subsection \<open>The command result\<close>

text \<open>
  Modelled from the spec: \<^verbatim>\<open>RestrictedCommandResult\<close> is an interface implemented
  outside the sources at hand. The spec's write protocol is: reset the result type, set
  the columns, then append rows in order. The result holds the statement type, the
  column schema, the rows it received and its error (\<^verbatim>\<open>res.Err()\<close>). Whether an
  \<^verbatim>\<open>AddRow\<close> fails is decided by \<open>AddRowErr\<close> of \<open>collab\<close>; a row whose \<^verbatim>\<open>AddRow\<close>
  fails is not received.
\<close>

datatype stmtType = ExplainAnalyze | ExplainAnalyzeDebug | OtherStmtType nat

datatype resultColumns = ExplainPlanColumns | ExplainAnalyzeDebugColumns | OtherColumns nat

record commandResult =
  resStmtType :: stmtType
  resColumns :: resultColumns
  resRows :: "string list list"
  resErr :: "error option"

subsection \<open>The diagnostics bundle\<close>

text \<open>
  Modelled from the spec: \<^verbatim>\<open>diagnosticsBundle\<close> and \<^verbatim>\<open>buildStatementBundle\<close> are not
  part of the sources at hand. The spec's bundle is the artifact made of the trace
  recording, the plan text and the parameters.
\<close>

record diagnosticsBundle =
  bundlePlan :: string
  bundleTrace :: recording
  bundlePlaceholders :: placeholders

subsection \<open>Calls into other packages\<close>

datatype event =
    EvShouldCollectDiagnostics string
  | EvShouldSaveLogicalPlanDescription string bool
  | EvStartSnowballTrace ctx string span
  | EvSpanFinish span
  | EvSpanGetRecording span
  | EvBuildStatementBundle string recording placeholders
  | EvBundleInsert string Statement requestID diagnosticsBundle
  | EvFinishCollectionDiagnostics callback
  | EvTelemetryInc
  | EvSetExplainBundleResult diagnosticsBundle "error option"
  | EvWithStatementTrace callback recording string
  | EvResetStmtType stmtType
  | EvSetColumns resultColumns
  | EvAddRow "string list" "error option"
  | EvGetStatsForStmt string bool "error option" bool
  | EvStatsLock stmtStatsRef
  | EvStatsRecord stmtStatsRef int int
  | EvStatsUnlock stmtStatsRef
  | EvLogVInfo nat string
  | EvLogWarning string

subsection \<open>Collaborators\<close>

text \<open>
  \<^verbatim>\<open>ExecutorConfig\<close>: the fields the file reads. \<^verbatim>\<open>TestingKnobs.WithStatementTrace\<close>
  is a func value, \<^verbatim>\<open>nil\<close> when no trace consumer is registered.
\<close>

record ExecutorConfig =
  Codec :: SQLCodec
  DB :: nat
  Tracer :: nat
  WithStatementTrace :: "callback option"
  DeterministicExplainAnalyze :: bool

text \<open>\<^verbatim>\<open>stmtdiagnostics.Registry\<close>: the answer of \<^verbatim>\<open>ShouldCollectDiagnostics\<close>.\<close>

record Registry =
  ShouldCollectDiagnostics :: "ctx \<Rightarrow> string \<Rightarrow> bool \<times> requestID \<times> callback option"

text \<open>
  \<^verbatim>\<open>appStats\<close>: \<^verbatim>\<open>getStatsForStmt\<close> takes the fingerprint, the implicit-transaction
  bit, the error and the create-if-nonexistent bit, and returns the statistics record or
  \<^verbatim>\<open>nil\<close>.
\<close>

record appStats =
  shouldSaveLogicalPlanDescription :: "string \<Rightarrow> bool \<Rightarrow> bool"
  getStatsForStmt :: "string \<Rightarrow> bool \<Rightarrow> error option \<Rightarrow> bool \<Rightarrow> stmtStatsRef option"

text \<open>
  \<^verbatim>\<open>planner\<close>: the evaluation context, the internal executor (the type assertion of
  \<^verbatim>\<open>Finish\<close> is to its one concrete type), the placeholders, the current plan and the
  trace analyzers of \<^verbatim>\<open>curPlan.distSQLFlowInfos\<close>, one for each distributed sub-flow.
\<close>

record planner =
  plannerEvalContext :: EvalContext
  InternalExecutor :: nat
  Placeholders :: placeholders
  curPlan :: nat
  distSQLFlowInfos :: "TraceAnalyzer list"

text \<open>
  The functions of other packages that the file calls: the explain emitter and the
  three renderings of a builder, the two latencies of \<^verbatim>\<open>phaseTimes\<close>, Go's
  \<^verbatim>\<open>Duration.Round(time.Microsecond).String()\<close>, the two methods of a trace analyzer
  (\<^verbatim>\<open>AddTrace\<close> returns its error and the analyzer it leaves behind), the recording of
  a span, \<^verbatim>\<open>setExplainBundleResult\<close>, and the error, if any, of an \<^verbatim>\<open>AddRow\<close> on a
  result.
\<close>

record collab =
  emitExplain :: "OutputBuilder \<Rightarrow> EvalContext option \<Rightarrow> SQLCodec \<Rightarrow> Plan \<Rightarrow> PlanDistribution
                    \<Rightarrow> bool \<Rightarrow> error + OutputBuilder"
  BuildString :: "OutputBuilder \<Rightarrow> string"
  BuildStringRows :: "OutputBuilder \<Rightarrow> string list"
  BuildProtoTree :: "OutputBuilder \<Rightarrow> ExplainTreePlanNode"
  getPlanningLatency :: "phaseTimes \<Rightarrow> int"
  getRunLatency :: "phaseTimes \<Rightarrow> int"
  roundedDurationString :: "int \<Rightarrow> string"
  AddTrace :: "TraceAnalyzer \<Rightarrow> recording \<Rightarrow> error option \<times> TraceAnalyzer"
  GetNetworkBytesSent :: "TraceAnalyzer \<Rightarrow> error + (nodeID \<times> int64) list"
  GetRecording :: "span \<Rightarrow> recording"
  setExplainBundleResult :: "commandResult \<Rightarrow> diagnosticsBundle \<Rightarrow> ExecutorConfig
                               \<Rightarrow> error option \<times> commandResult"
  AddRowErr :: "commandResult \<Rightarrow> string list \<Rightarrow> error option"

subsection \<open>The helper\<close>

record instrumentationHelper =
  outputMode :: outputMode
  explainFlags :: Flags
  fingerprint :: string
  implicitTxn :: bool
  codec :: SQLCodec
  collectBundle :: bool
  discardRows :: bool
  diagRequestID :: requestID
  finishCollectionDiagnostics :: "callback option"
  withStatementTrace :: "callback option"
  sp :: "span option"
  origCtx :: "ctx option"
  evalCtx :: "EvalContext option"
  savePlanForStats :: bool
  explainPlan :: "Plan option"
  distribution :: PlanDistribution
  vectorized :: bool

text \<open>The Go zero value of the struct: what a helper is before any call.\<close>

definition zeroHelper :: instrumentationHelper where
  "zeroHelper =
     \<lparr>outputMode = unmodifiedOutput, explainFlags = zeroFlags, fingerprint = [],
      implicitTxn = False, codec = 0, collectBundle = False, discardRows = False,
      diagRequestID = 0, finishCollectionDiagnostics = None, withStatementTrace = None,
      sp = None, origCtx = None, evalCtx = None, savePlanForStats = False,
      explainPlan = None, distribution = 0, vectorized = False\<rparr>"

section \<open>The methods\<close>

subsection \<open>SetOutputMode and the setters and accessors\<close>

definition SetOutputMode :: "outputMode \<Rightarrow> Flags \<Rightarrow> instrumentationHelper \<Rightarrow> instrumentationHelper" where
  "SetOutputMode mode flags ih = ih\<lparr>outputMode := mode, explainFlags := flags\<rparr>"

definition SetDiscardRows :: "instrumentationHelper \<Rightarrow> instrumentationHelper" where
  "SetDiscardRows ih = ih\<lparr>discardRows := True\<rparr>"

definition ShouldDiscardRows :: "instrumentationHelper \<Rightarrow> bool" where
  "ShouldDiscardRows ih = discardRows ih"

definition ShouldCollectBundle :: "instrumentationHelper \<Rightarrow> bool" where
  "ShouldCollectBundle ih = collectBundle ih"

definition ShouldBuildExplainPlan :: "instrumentationHelper \<Rightarrow> bool" where
  "ShouldBuildExplainPlan ih =
     (collectBundle ih \<or> savePlanForStats ih \<or> outputMode ih = explainAnalyzePlanOutput)"

definition RecordExplainPlan :: "Plan option \<Rightarrow> instrumentationHelper \<Rightarrow> instrumentationHelper" where
  "RecordExplainPlan pl ih = ih\<lparr>explainPlan := pl\<rparr>"

definition RecordPlanInfo :: "PlanDistribution \<Rightarrow> bool \<Rightarrow> instrumentationHelper \<Rightarrow> instrumentationHelper" where
  "RecordPlanInfo dist vec ih = ih\<lparr>distribution := dist, vectorized := vec\<rparr>"

subsection \<open>Setup\<close>

text \<open>
  Modelled from the spec: \<^verbatim>\<open>tracing.StartSnowballTrace\<close> is not part of the sources
  at hand. The tracer hands out a span it has not handed out before (the next free
  number) and the context augmented with that span.
\<close>

definition StartSnowballTrace :: "ctx \<Rightarrow> nat \<Rightarrow> string \<Rightarrow> span \<Rightarrow> (ctx \<times> span) \<times> span \<times> event list" where
  "StartSnowballTrace c tracer opName nextSpan =
     ((CtxWithSpan c nextSpan, nextSpan), Suc nextSpan, [EvStartSnowballTrace c opName nextSpan])"

record setupOutcome =
  newCtx :: ctx
  needFinish :: bool
  setupHelper :: instrumentationHelper
  setupNextSpan :: span
  setupEvents :: "event list"

text \<open>
  The \<^verbatim>\<open>switch\<close> on the output mode: its \<^verbatim>\<open>default\<close> branch asks the registry and
  assigns the three answers.
\<close>

definition Setup_mode :: "ctx \<Rightarrow> Registry \<Rightarrow> string \<Rightarrow> instrumentationHelper
    \<Rightarrow> instrumentationHelper \<times> event list" where
  "Setup_mode c stmtDiagnosticsRecorder fp ih =
     (case outputMode ih of
        explainAnalyzeDebugOutput \<Rightarrow> (ih\<lparr>collectBundle := True, discardRows := True\<rparr>, [])
      | explainAnalyzePlanOutput \<Rightarrow> (ih\<lparr>discardRows := True\<rparr>, [])
      | unmodifiedOutput \<Rightarrow>
          (case ShouldCollectDiagnostics stmtDiagnosticsRecorder c fp of
             (collect, rid, cb) \<Rightarrow>
               (ih\<lparr>collectBundle := collect, diagRequestID := rid,
                   finishCollectionDiagnostics := cb\<rparr>,
                [EvShouldCollectDiagnostics fp])))"

definition Setup :: "ctx \<Rightarrow> ExecutorConfig \<Rightarrow> appStats \<Rightarrow> planner \<Rightarrow> Registry \<Rightarrow> string \<Rightarrow> bool
    \<Rightarrow> instrumentationHelper \<Rightarrow> span \<Rightarrow> setupOutcome" where
  "Setup c cfg appSt p stmtDiagnosticsRecorder fp implicit ih nextSpan =
     (let ih1 = ih\<lparr>fingerprint := fp, implicitTxn := implicit, codec := Codec cfg\<rparr>;
          (ih2, evs1) = Setup_mode c stmtDiagnosticsRecorder fp ih1;
          ih3 = ih2\<lparr>withStatementTrace := WithStatementTrace cfg\<rparr>;
          ih4 = ih3\<lparr>savePlanForStats := shouldSaveLogicalPlanDescription appSt fp implicit\<rparr>;
          evs2 = evs1 @ [EvShouldSaveLogicalPlanDescription fp implicit]
      in if \<not> collectBundle ih4 \<and> withStatementTrace ih4 = None
              \<and> outputMode ih4 = unmodifiedOutput
         then \<lparr>newCtx = c, needFinish = False, setupHelper = ih4,
                setupNextSpan = nextSpan, setupEvents = evs2\<rparr>
         else
           (let ih5 = ih4\<lparr>origCtx := Some c, evalCtx := Some (plannerEvalContext p)\<rparr>;
                ((c', s), nextSpan', evs3) =
                   StartSnowballTrace c (Tracer cfg) ''traced statement'' nextSpan
            in \<lparr>newCtx = c', needFinish = True, setupHelper = ih5\<lparr>sp := Some s\<rparr>,
                 setupNextSpan = nextSpan', setupEvents = evs2 @ evs3\<rparr>))"

subsection \<open>The plan renderers\<close>

definition PlanForStats :: "collab \<Rightarrow> instrumentationHelper \<Rightarrow> ExplainTreePlanNode option \<times> event list" where
  "PlanForStats co ih =
     (case explainPlan ih of
        None \<Rightarrow> (None, [])
      | Some pl \<Rightarrow>
          (let ob = NewOutputBuilder (zeroFlags\<lparr>HideValues := True\<rparr>)
           in case emitExplain co ob (evalCtx ih) (codec ih) pl (distribution ih) (vectorized ih) of
                Inl err \<Rightarrow>
                  (None, [EvLogWarning (''unable to emit explain plan tree: '' @ errorText err)])
              | Inr ob' \<Rightarrow> (Some (BuildProtoTree co ob'), [])))"

definition planStringForBundle :: "collab \<Rightarrow> instrumentationHelper \<Rightarrow> string" where
  "planStringForBundle co ih =
     (case explainPlan ih of
        None \<Rightarrow> []
      | Some pl \<Rightarrow>
          (let ob = NewOutputBuilder (zeroFlags\<lparr>Verbose := True, ShowTypes := True\<rparr>)
           in case emitExplain co ob (evalCtx ih) (codec ih) pl (distribution ih) (vectorized ih) of
                Inl err \<Rightarrow> ''error emitting plan: '' @ errorText err
              | Inr ob' \<Rightarrow> BuildString co ob'))"

definition planRowsForExplainAnalyze :: "collab \<Rightarrow> phaseTimes \<Rightarrow> instrumentationHelper \<Rightarrow> string list" where
  "planRowsForExplainAnalyze co pt ih =
     (case explainPlan ih of
        None \<Rightarrow> []
      | Some pl \<Rightarrow>
          (let ob = NewOutputBuilder (explainFlags ih);
               ob1 = AddField ''planning time''
                       (roundedDurationString co (getPlanningLatency co pt)) ob;
               ob2 = AddField ''execution time''
                       (roundedDurationString co (getRunLatency co pt)) ob1
           in case emitExplain co ob2 (evalCtx ih) (codec ih) pl (distribution ih) (vectorized ih) of
                Inl err \<Rightarrow> [''error emitting plan: '' @ errorText err]
              | Inr ob' \<Rightarrow> BuildStringRows co ob'))"

subsection \<open>setExplainAnalyzePlanResult\<close>

text \<open>
  The loop over the rows: each row is one string datum; the first \<^verbatim>\<open>AddRow\<close> that
  fails ends the loop with its error.
\<close>

fun addRows :: "collab \<Rightarrow> string list \<Rightarrow> commandResult \<Rightarrow> error option \<times> commandResult \<times> event list" where
  "addRows co [] res = (None, res, [])"
| "addRows co (row # rows) res =
     (case AddRowErr co res [row] of
        Some err \<Rightarrow> (Some err, res, [EvAddRow [row] (Some err)])
      | None \<Rightarrow>
          (case addRows co rows (res\<lparr>resRows := resRows res @ [ [row] ]\<rparr>) of
             (e, res', evs) \<Rightarrow> (e, res', EvAddRow [row] None # evs)))"

definition experimentalWarning :: string where
  "experimentalWarning = ''WARNING: this statement is experimental!''"

definition setExplainAnalyzePlanResult :: "collab \<Rightarrow> commandResult \<Rightarrow> phaseTimes \<Rightarrow> instrumentationHelper
    \<Rightarrow> error option \<times> commandResult \<times> event list" where
  "setExplainAnalyzePlanResult co res pt ih =
     (let res1 = res\<lparr>resStmtType := ExplainAnalyze\<rparr>;
          res2 = res1\<lparr>resColumns := ExplainPlanColumns\<rparr>;
          evs = [EvResetStmtType ExplainAnalyze, EvSetColumns ExplainPlanColumns]
      in if resErr res2 \<noteq> None then (None, res2, evs)
         else
           (let rows = planRowsForExplainAnalyze co pt ih;
                rows1 = rows @ [''''];
                rows2 = rows1 @ [experimentalWarning]
            in case addRows co rows2 res2 of
                 (commErr, res3, evs') \<Rightarrow> (commErr, res3, evs @ evs')))"

subsection \<open>Finish\<close>

text \<open>
  \<^verbatim>\<open>buildStatementBundle\<close> gets the plan string, the trace and the placeholders
  (next to the context, the database, the internal executor and the current plan).
\<close>

definition buildStatementBundle :: "string \<Rightarrow> recording \<Rightarrow> placeholders \<Rightarrow> diagnosticsBundle" where
  "buildStatementBundle planString trace ph =
     \<lparr>bundlePlan = planString, bundleTrace = trace, bundlePlaceholders = ph\<rparr>"

text \<open>The block under \<^verbatim>\<open>if ih.collectBundle\<close>.\<close>

definition Finish_collectBundle :: "collab \<Rightarrow> ExecutorConfig \<Rightarrow> planner \<Rightarrow> Statement \<Rightarrow> recording
    \<Rightarrow> commandResult \<Rightarrow> error option \<Rightarrow> instrumentationHelper
    \<Rightarrow> error option \<times> commandResult \<times> event list" where
  "Finish_collectBundle co cfg p ast trace res retErr ih =
     (if collectBundle ih then
        (let planString = planStringForBundle co ih;
             bundle = buildStatementBundle planString trace (Placeholders p);
             evs1 = [EvBuildStatementBundle planString trace (Placeholders p),
                     EvBundleInsert (fingerprint ih) ast (diagRequestID ih) bundle];
             evs2 = (case finishCollectionDiagnostics ih of
                       None \<Rightarrow> []
                     | Some cb \<Rightarrow> [EvFinishCollectionDiagnostics cb, EvTelemetryInc])
         in if outputMode ih = explainAnalyzeDebugOutput \<and> retErr = None
            then (case setExplainBundleResult co res bundle cfg of
                    (retErr', res') \<Rightarrow>
                      (retErr', res', evs1 @ evs2 @ [EvSetExplainBundleResult bundle retErr']))
            else (retErr, res, evs1 @ evs2))
      else (retErr, res, []))"

text \<open>The block under \<^verbatim>\<open>if ih.withStatementTrace != nil\<close>.\<close>

definition Finish_withStatementTrace :: "recording \<Rightarrow> string \<Rightarrow> instrumentationHelper \<Rightarrow> event list" where
  "Finish_withStatementTrace trace stmtRawSQL ih =
     (case withStatementTrace ih of
        None \<Rightarrow> []
      | Some cb \<Rightarrow> [EvWithStatementTrace cb trace stmtRawSQL])"

text \<open>The block under \<^verbatim>\<open>if ih.outputMode == explainAnalyzePlanOutput && retErr == nil\<close>.\<close>

definition Finish_explainAnalyzePlan :: "collab \<Rightarrow> ExecutorConfig \<Rightarrow> phaseTimes \<Rightarrow> commandResult
    \<Rightarrow> error option \<Rightarrow> instrumentationHelper \<Rightarrow> error option \<times> commandResult \<times> event list" where
  "Finish_explainAnalyzePlan co cfg statsCollectorPhaseTimes res retErr ih =
     (if outputMode ih = explainAnalyzePlanOutput \<and> retErr = None then
        (let pt = (if DeterministicExplainAnalyze cfg then deterministicPhaseTimes
                   else statsCollectorPhaseTimes)
         in setExplainAnalyzePlanResult co res pt ih)
      else (retErr, res, []))"

text \<open>
  The inner loop adds the bytes of every node to the running \<^verbatim>\<open>int64\<close> total; the
  outer loop visits every sub-flow and skips, after a log line, the one whose
  \<^verbatim>\<open>AddTrace\<close> or \<^verbatim>\<open>GetNetworkBytesSent\<close> returns an error.
\<close>

fun sumBytesSent :: "(nodeID \<times> int64) list \<Rightarrow> int64 \<Rightarrow> int64" where
  "sumBytesSent [] networkBytesSent = networkBytesSent"
| "sumBytesSent ((n, bytesSentByNode) # rest) networkBytesSent =
     sumBytesSent rest (networkBytesSent + bytesSentByNode)"

fun flowLoop :: "collab \<Rightarrow> Statement \<Rightarrow> recording \<Rightarrow> TraceAnalyzer list \<Rightarrow> int64
    \<Rightarrow> TraceAnalyzer list \<times> int64 \<times> event list" where
  "flowLoop co ast trace [] networkBytesSent = ([], networkBytesSent, [])"
| "flowLoop co ast trace (analyzer # rest) networkBytesSent =
     (case AddTrace co analyzer trace of
        (Some err, analyzer') \<Rightarrow>
          (case flowLoop co ast trace rest networkBytesSent of
             (rest', n, evs) \<Rightarrow>
               (analyzer' # rest', n,
                EvLogVInfo 1 (''error analyzing trace statistics for stmt '' @ ast @ '': ''
                              @ errorText err) # evs))
      | (None, analyzer') \<Rightarrow>
          (case GetNetworkBytesSent co analyzer' of
             Inl err \<Rightarrow>
               (case flowLoop co ast trace rest networkBytesSent of
                  (rest', n, evs) \<Rightarrow>
                    (analyzer' # rest', n,
                     EvLogVInfo 1 (''error calculating network bytes sent for stmt '' @ ast
                                   @ '': '' @ errorText err) # evs))
           | Inr networkBytesSentGroupedByNode \<Rightarrow>
               (case flowLoop co ast trace rest
                       (sumBytesSent networkBytesSentGroupedByNode networkBytesSent) of
                  (rest', n, evs) \<Rightarrow> (analyzer' # rest', n, evs))))"

text \<open>
  The statistics block: the lookup passes \<^verbatim>\<open>false\<close> as its last argument, and the
  fold-in runs only for a record that is not \<^verbatim>\<open>nil\<close>. The value recorded is
  \<^verbatim>\<open>float64(networkBytesSent)\<close>; the event keeps the integer that is converted.
\<close>

definition Finish_stmtStats :: "collab \<Rightarrow> appStats \<Rightarrow> planner \<Rightarrow> Statement \<Rightarrow> recording
    \<Rightarrow> error option \<Rightarrow> instrumentationHelper \<Rightarrow> planner \<times> event list" where
  "Finish_stmtStats co appSt p ast trace retErr ih =
     (let ev = EvGetStatsForStmt (fingerprint ih) (implicitTxn ih) retErr False
      in case getStatsForStmt appSt (fingerprint ih) (implicitTxn ih) retErr False of
           None \<Rightarrow> (p, [ev])
         | Some stmtStats \<Rightarrow>
             (case flowLoop co ast trace (distSQLFlowInfos p) 0 of
                (flows', networkBytesSent, evs) \<Rightarrow>
                  (p\<lparr>distSQLFlowInfos := flows'\<rparr>,
                   ev # evs @ [EvStatsLock stmtStats,
                               EvStatsRecord stmtStats 1 (sint networkBytesSent),
                               EvStatsUnlock stmtStats])))"

record finishOutcome =
  finishErr :: "error option"
  finishHelper :: instrumentationHelper
  finishPlanner :: planner
  finishRes :: commandResult
  finishEvents :: "event list"

definition Finish :: "collab \<Rightarrow> ExecutorConfig \<Rightarrow> appStats \<Rightarrow> phaseTimes \<Rightarrow> planner \<Rightarrow> Statement
    \<Rightarrow> string \<Rightarrow> commandResult \<Rightarrow> error option \<Rightarrow> instrumentationHelper \<Rightarrow> finishOutcome" where
  "Finish co cfg appSt statsCollectorPhaseTimes p ast stmtRawSQL res retErr ih =
     (case sp ih of
        None \<Rightarrow> \<lparr>finishErr = retErr, finishHelper = ih, finishPlanner = p, finishRes = res,
                 finishEvents = []\<rparr>
      | Some s \<Rightarrow>
          (let evs0 = [EvSpanFinish s, EvSpanGetRecording s];
               trace = GetRecording co s;
               (retErr1, res1, evs1) = Finish_collectBundle co cfg p ast trace res retErr ih;
               evs2 = Finish_withStatementTrace trace stmtRawSQL ih;
               (retErr2, res2, evs3) =
                  Finish_explainAnalyzePlan co cfg statsCollectorPhaseTimes res1 retErr1 ih;
               (p', evs4) = Finish_stmtStats co appSt p ast trace retErr2 ih
           in \<lparr>finishErr = retErr2, finishHelper = ih, finishPlanner = p', finishRes = res2,
                finishEvents = evs0 @ evs1 @ evs2 @ evs3 @ evs4\<rparr>))"

section \<open>Sequences of public calls\<close>

text \<open>
  One statement execution owns one helper. The collaborators of the execution are fixed;
  the helper, the planner (whose analyzers \<^verbatim>\<open>AddTrace\<close> updates), the command result
  and the tracer's next free span change from call to call.
\<close>

datatype call =
    CallSetOutputMode outputMode Flags
  | CallSetup ctx string bool
  | CallFinish Statement string "error option"
  | CallSetDiscardRows
  | CallShouldDiscardRows
  | CallShouldCollectBundle
  | CallShouldBuildExplainPlan
  | CallRecordExplainPlan "Plan option"
  | CallRecordPlanInfo PlanDistribution bool
  | CallPlanForStats

record execution =
  exCollab :: collab
  exCfg :: ExecutorConfig
  exAppStats :: appStats
  exRegistry :: Registry
  exPhaseTimes :: phaseTimes

record execState =
  stHelper :: instrumentationHelper
  stPlanner :: planner
  stRes :: commandResult
  stNextSpan :: span

fun step :: "execution \<Rightarrow> call \<Rightarrow> execState \<Rightarrow> execState \<times> event list" where
  "step ex (CallSetOutputMode mode flags) st =
     (st\<lparr>stHelper := SetOutputMode mode flags (stHelper st)\<rparr>, [])"
| "step ex (CallSetup c fp implicit) st =
     (let out = Setup c (exCfg ex) (exAppStats ex) (stPlanner st) (exRegistry ex) fp implicit
                  (stHelper st) (stNextSpan st)
      in (st\<lparr>stHelper := setupHelper out, stNextSpan := setupNextSpan out\<rparr>, setupEvents out))"
| "step ex (CallFinish ast stmtRawSQL retErr) st =
     (let out = Finish (exCollab ex) (exCfg ex) (exAppStats ex) (exPhaseTimes ex) (stPlanner st)
                  ast stmtRawSQL (stRes st) retErr (stHelper st)
      in (st\<lparr>stHelper := finishHelper out, stPlanner := finishPlanner out,
              stRes := finishRes out\<rparr>, finishEvents out))"
| "step ex CallSetDiscardRows st = (st\<lparr>stHelper := SetDiscardRows (stHelper st)\<rparr>, [])"
| "step ex CallShouldDiscardRows st = (st, [])"
| "step ex CallShouldCollectBundle st = (st, [])"
| "step ex CallShouldBuildExplainPlan st = (st, [])"
| "step ex (CallRecordExplainPlan pl) st =
     (st\<lparr>stHelper := RecordExplainPlan pl (stHelper st)\<rparr>, [])"
| "step ex (CallRecordPlanInfo dist vec) st =
     (st\<lparr>stHelper := RecordPlanInfo dist vec (stHelper st)\<rparr>, [])"
| "step ex CallPlanForStats st = (st, snd (PlanForStats (exCollab ex) (stHelper st)))"

fun run :: "execution \<Rightarrow> call list \<Rightarrow> execState \<Rightarrow> execState \<times> event list" where
  "run ex [] st = (st, [])"
| "run ex (c # cs) st =
     (case step ex c st of
        (st', evs) \<Rightarrow> (case run ex cs st' of (st'', evs') \<Rightarrow> (st'', evs @ evs')))"

fun isSetupOrFinish :: "call \<Rightarrow> bool" where
  "isSetupOrFinish (CallSetup c fp implicit) = True"
| "isSetupOrFinish (CallFinish ast stmtRawSQL retErr) = True"
| "isSetupOrFinish other = False"

fun isSetup :: "call \<Rightarrow> bool" where
  "isSetup (CallSetup c fp implicit) = True"
| "isSetup other = False"

fun isFinish :: "call \<Rightarrow> bool" where
  "isFinish (CallFinish ast stmtRawSQL retErr) = True"
| "isFinish other = False"

section \<open>Observations on the calls made\<close>

fun isSpanStart :: "event \<Rightarrow> bool" where
  "isSpanStart (EvStartSnowballTrace c opName s) = True"
| "isSpanStart e = False"

fun isSpanEvent :: "event \<Rightarrow> bool" where
  "isSpanEvent (EvSpanFinish s) = True"
| "isSpanEvent (EvSpanGetRecording s) = True"
| "isSpanEvent e = False"

fun isBundleEvent :: "event \<Rightarrow> bool" where
  "isBundleEvent (EvBuildStatementBundle planString trace ph) = True"
| "isBundleEvent (EvBundleInsert fp ast rid bundle) = True"
| "isBundleEvent (EvFinishCollectionDiagnostics cb) = True"
| "isBundleEvent EvTelemetryInc = True"
| "isBundleEvent e = False"

fun isStatsEvent :: "event \<Rightarrow> bool" where
  "isStatsEvent (EvGetStatsForStmt fp implicit err create) = True"
| "isStatsEvent (EvStatsLock r) = True"
| "isStatsEvent (EvStatsRecord r cnt v) = True"
| "isStatsEvent (EvStatsUnlock r) = True"
| "isStatsEvent e = False"

fun isStatsRecord :: "event \<Rightarrow> bool" where
  "isStatsRecord (EvStatsRecord r cnt v) = True"
| "isStatsRecord e = False"

text \<open>The error, if any, that a write to the statement result came back with.\<close>

fun writeError :: "event \<Rightarrow> error option" where
  "writeError (EvAddRow row e) = e"
| "writeError (EvSetExplainBundleResult bundle e) = e"
| "writeError e = None"

fun commErrors :: "event list \<Rightarrow> error list" where
  "commErrors [] = []"
| "commErrors (e # es) =
     (case writeError e of None \<Rightarrow> commErrors es | Some err \<Rightarrow> err # commErrors es)"

text \<open>
  The network-bytes total in the spec's words: a sub-flow whose analysis fails
  contributes nothing, any other sub-flow the sum of its bytes over every node.
\<close>

definition spec_flowFails :: "collab \<Rightarrow> recording \<Rightarrow> TraceAnalyzer \<Rightarrow> bool" where
  "spec_flowFails co trace analyzer =
     (case AddTrace co analyzer trace of
        (Some err, analyzer') \<Rightarrow> True
      | (None, analyzer') \<Rightarrow>
          (case GetNetworkBytesSent co analyzer' of Inl err \<Rightarrow> True | Inr m \<Rightarrow> False))"

definition spec_flowBytesSent :: "collab \<Rightarrow> recording \<Rightarrow> TraceAnalyzer \<Rightarrow> int64" where
  "spec_flowBytesSent co trace analyzer =
     (case GetNetworkBytesSent co (snd (AddTrace co analyzer trace)) of
        Inl err \<Rightarrow> 0
      | Inr m \<Rightarrow> sum_list (map snd m))"

definition spec_networkBytesSent :: "collab \<Rightarrow> recording \<Rightarrow> TraceAnalyzer list \<Rightarrow> int64" where
  "spec_networkBytesSent co trace flows =
     sum_list (map (\<lambda>a. if spec_flowFails co trace a then 0 else spec_flowBytesSent co trace a) flows)"

section \<open>A concrete execution\<close>

text \<open>
  Collaborators small enough to evaluate: the emitter fails on plan 0 and otherwise adds
  one line; analyzer 0 fails in \<^verbatim>\<open>AddTrace\<close>, analyzer 1 in
  \<^verbatim>\<open>GetNetworkBytesSent\<close>, any other analyzer reports 10 and 20 bytes on two nodes.
\<close>

definition demoCollab :: collab where
  "demoCollab =
     \<lparr>emitExplain = (\<lambda>ob ec cd pl dist vec.
         if pl = 0 then Inl (Error ''no plan'')
         else Inr (ob\<lparr>obEntries := obEntries ob @ [(''scan'', ''t'')]\<rparr>)),
      BuildString = (\<lambda>ob. concat (map (\<lambda>(k, v). k @ '': '' @ v) (obEntries ob))),
      BuildStringRows = (\<lambda>ob. map (\<lambda>(k, v). k @ '': '' @ v) (obEntries ob)),
      BuildProtoTree = (\<lambda>ob. map fst (obEntries ob)),
      getPlanningLatency = (\<lambda>pt. plannerEndLogicalPlan pt - plannerStartLogicalPlan pt),
      getRunLatency = (\<lambda>pt. plannerEndExecStmt pt - plannerStartExecStmt pt),
      roundedDurationString = (\<lambda>d. if d = 10000 then ''10us''
                                     else if d = 100000 then ''100us'' else ''other''),
      AddTrace = (\<lambda>a trace. (if a = 0 then Some (Error ''bad payload'') else None, a)),
      GetNetworkBytesSent = (\<lambda>a. if a = 1 then Inl (Error ''no stats'')
                                    else Inr [(1, 10), (2, 20)]),
      GetRecording = (\<lambda>s. [''recorded span'']),
      setExplainBundleResult = (\<lambda>res bundle cfg.
         (None, res\<lparr>resStmtType := ExplainAnalyzeDebug,
                     resColumns := ExplainAnalyzeDebugColumns,
                     resRows := resRows res @ [ [''bundle''] ]\<rparr>)),
      AddRowErr = (\<lambda>res row. None)\<rparr>"

definition demoCfg :: ExecutorConfig where
  "demoCfg = \<lparr>Codec = 1, DB = 1, Tracer = 1, WithStatementTrace = None,
              DeterministicExplainAnalyze = True\<rparr>"

definition demoRegistry :: Registry where
  "demoRegistry =
     \<lparr>ShouldCollectDiagnostics =
        (\<lambda>c fp. if fp = ''SELECT _'' then (True, 7, Some 3) else (False, 0, None))\<rparr>"

definition demoAppStats :: appStats where
  "demoAppStats =
     \<lparr>shouldSaveLogicalPlanDescription = (\<lambda>fp implicit. False),
      getStatsForStmt = (\<lambda>fp implicit err create. Some 5)\<rparr>"

definition demoPlanner :: planner where
  "demoPlanner = \<lparr>plannerEvalContext = 1, InternalExecutor = 1, Placeholders = [''$1''],
                  curPlan = 1, distSQLFlowInfos = [0, 2, 1, 3]\<rparr>"

definition demoRes :: commandResult where
  "demoRes = \<lparr>resStmtType = OtherStmtType 0, resColumns = OtherColumns 0, resRows = [],
              resErr = None\<rparr>"

definition demoPhaseTimes :: phaseTimes where
  "demoPhaseTimes =
     \<lparr>sessionQueryReceived = 5, sessionStartParse = 6, sessionEndParse = 7,
      plannerStartLogicalPlan = 8, plannerEndLogicalPlan = 9, plannerStartExecStmt = 10,
      plannerEndExecStmt = 11\<rparr>"

definition demoExecution :: execution where
  "demoExecution = \<lparr>exCollab = demoCollab, exCfg = demoCfg, exAppStats = demoAppStats,
                    exRegistry = demoRegistry, exPhaseTimes = demoPhaseTimes\<rparr>"

definition demoState :: execState where
  "demoState = \<lparr>stHelper = zeroHelper, stPlanner = demoPlanner, stRes = demoRes,
                stNextSpan = 0\<rparr>"

text \<open>
  Three helpers as \<^verbatim>\<open>Setup\<close> leaves them: one armed by a diagnostics request in the
  unmodified mode, one in each of the two EXPLAIN ANALYZE modes, the last with plan 1
  recorded.
\<close>

definition demoArmed :: instrumentationHelper where
  "demoArmed = setupHelper (Setup (BaseCtx 0) demoCfg demoAppStats demoPlanner demoRegistry
                              ''SELECT _'' True zeroHelper 0)"

definition demoArmedDebug :: instrumentationHelper where
  "demoArmedDebug =
     setupHelper (Setup (BaseCtx 0) demoCfg demoAppStats demoPlanner demoRegistry
                    ''SELECT _'' True (SetOutputMode explainAnalyzeDebugOutput zeroFlags zeroHelper) 0)"

definition demoArmedPlan :: instrumentationHelper where
  "demoArmedPlan =
     RecordExplainPlan (Some 1)
       (setupHelper (Setup (BaseCtx 0) demoCfg demoAppStats demoPlanner demoRegistry
                       ''SELECT _'' True (SetOutputMode explainAnalyzePlanOutput zeroFlags zeroHelper) 0))"

definition demoCollabBroken :: collab where
  "demoCollabBroken = demoCollab\<lparr>AddRowErr := (\<lambda>res row. Some (Error ''broken pipe''))\<rparr>"

definition demoAppStatsMissing :: appStats where
  "demoAppStatsMissing = demoAppStats\<lparr>getStatsForStmt := (\<lambda>fp implicit err create. None)\<rparr>"

definition demoArmedBadPlan :: instrumentationHelper where
  "demoArmedBadPlan = RecordExplainPlan (Some 0) demoArmed"

definition demoPhaseTimesLate :: phaseTimes where
  "demoPhaseTimesLate =
     \<lparr>sessionQueryReceived = 100, sessionStartParse = 200, sessionEndParse = 300,
      plannerStartLogicalPlan = 400, plannerEndLogicalPlan = 500000,
      plannerStartExecStmt = 600000, plannerEndExecStmt = 7000000\<rparr>"

section \<open>Auxiliary facts\<close>

lemma commErrors_append: "commErrors (xs @ ys) = commErrors xs @ commErrors ys"
  by (induction xs) (auto split: option.splits)

lemma filter_empty_if: "(\<And>e. e \<in> set evs \<Longrightarrow> \<not> P e) \<Longrightarrow> filter P evs = []"
  by (induction evs) auto

lemma commErrors_empty_if: "(\<And>e. e \<in> set evs \<Longrightarrow> writeError e = None) \<Longrightarrow> commErrors evs = []"
  by (induction evs) auto

lemma sumBytesSent_sum: "sumBytesSent m acc = acc + sum_list (map snd m)"
  by (induction m acc rule: sumBytesSent.induct) (auto simp: add.assoc)

lemma addRows_events:
  "addRows co rows res = (e, res', evs) \<Longrightarrow> ev \<in> set evs \<Longrightarrow> \<exists>row err. ev = EvAddRow row err"
  by (induction rows arbitrary: res e res' evs) (auto split: option.splits prod.splits)

lemma addRows_commErrors:
  "addRows co rows res = (e, res', evs) \<Longrightarrow>
     commErrors evs = (case e of None \<Rightarrow> [] | Some err \<Rightarrow> [err])"
  by (induction rows arbitrary: res e res' evs) (auto split: option.splits prod.splits)

lemma flowLoop_events:
  "flowLoop co ast trace flows acc = (flows', n, evs) \<Longrightarrow> ev \<in> set evs \<Longrightarrow> \<exists>msg. ev = EvLogVInfo 1 msg"
  by (induction flows arbitrary: acc flows' n evs)
     (auto split: option.splits prod.splits sum.splits)

lemma spec_networkBytesSent_simps:
  "spec_networkBytesSent co trace [] = 0"
  "spec_networkBytesSent co trace (a # flows) =
     (if spec_flowFails co trace a then 0 else spec_flowBytesSent co trace a)
       + spec_networkBytesSent co trace flows"
  by (simp_all add: spec_networkBytesSent_def)

lemma flowLoop_total:
  "flowLoop co ast trace flows acc = (flows', n, evs) \<Longrightarrow>
     n = acc + spec_networkBytesSent co trace flows"
proof (induction flows arbitrary: acc flows' n evs)
  case Nil
  then show ?case by (simp add: spec_networkBytesSent_simps)
next
  case (Cons a flows)
  obtain e a' where at: "AddTrace co a trace = (e, a')" by (cases "AddTrace co a trace")
  show ?case
  proof (cases e)
    case (Some err)
    with at have fails: "spec_flowFails co trace a" by (simp add: spec_flowFails_def)
    from Cons.prems at Some obtain r' evs' where "flowLoop co ast trace flows acc = (r', n, evs')"
      by (auto split: prod.splits)
    from Cons.IH[OF this] fails show ?thesis by (simp add: spec_networkBytesSent_simps)
  next
    case None
    show ?thesis
    proof (cases "GetNetworkBytesSent co a'")
      case (Inl err)
      with at None have fails: "spec_flowFails co trace a" by (simp add: spec_flowFails_def)
      from Cons.prems at None Inl obtain r' evs' where "flowLoop co ast trace flows acc = (r', n, evs')"
        by (auto split: prod.splits)
      from Cons.IH[OF this] fails show ?thesis by (simp add: spec_networkBytesSent_simps)
    next
      case (Inr m)
      with at None have ok: "\<not> spec_flowFails co trace a" "spec_flowBytesSent co trace a = sum_list (map snd m)"
        by (simp_all add: spec_flowFails_def spec_flowBytesSent_def)
      from Cons.prems at None Inr obtain r' evs' where
        "flowLoop co ast trace flows (sumBytesSent m acc) = (r', n, evs')"
        by (auto split: prod.splits)
      from Cons.IH[OF this] ok show ?thesis
        by (simp add: spec_networkBytesSent_simps sumBytesSent_sum add.assoc)
    qed
  qed
qed


subsection \<open>The steps of Finish\<close>

lemma Finish_unarmed:
  "sp ih = None \<Longrightarrow>
     Finish co cfg appSt pt p ast sql res retErr ih =
       \<lparr>finishErr = retErr, finishHelper = ih, finishPlanner = p, finishRes = res,
        finishEvents = []\<rparr>"
  by (simp add: Finish_def)

lemma Finish_armedE:
  assumes "sp ih = Some s"
  obtains e1 r1 evs1 e2 r2 evs3 p' evs4 where
    "Finish_collectBundle co cfg p ast (GetRecording co s) res retErr ih = (e1, r1, evs1)"
    "Finish_explainAnalyzePlan co cfg pt r1 e1 ih = (e2, r2, evs3)"
    "Finish_stmtStats co appSt p ast (GetRecording co s) e2 ih = (p', evs4)"
    "Finish co cfg appSt pt p ast sql res retErr ih =
       \<lparr>finishErr = e2, finishHelper = ih, finishPlanner = p', finishRes = r2,
        finishEvents = [EvSpanFinish s, EvSpanGetRecording s] @ evs1
          @ Finish_withStatementTrace (GetRecording co s) sql ih @ evs3 @ evs4\<rparr>"
proof -
  obtain e1 r1 evs1 where a:
    "Finish_collectBundle co cfg p ast (GetRecording co s) res retErr ih = (e1, r1, evs1)"
    by (cases "Finish_collectBundle co cfg p ast (GetRecording co s) res retErr ih")
  obtain e2 r2 evs3 where b: "Finish_explainAnalyzePlan co cfg pt r1 e1 ih = (e2, r2, evs3)"
    by (cases "Finish_explainAnalyzePlan co cfg pt r1 e1 ih")
  obtain p' evs4 where c:
    "Finish_stmtStats co appSt p ast (GetRecording co s) e2 ih = (p', evs4)"
    by (cases "Finish_stmtStats co appSt p ast (GetRecording co s) e2 ih")
  from assms a b c have
    "Finish co cfg appSt pt p ast sql res retErr ih =
       \<lparr>finishErr = e2, finishHelper = ih, finishPlanner = p', finishRes = r2,
        finishEvents = [EvSpanFinish s, EvSpanGetRecording s] @ evs1
          @ Finish_withStatementTrace (GetRecording co s) sql ih @ evs3 @ evs4\<rparr>"
    by (simp add: Finish_def)
  with a b c show ?thesis by (rule that)
qed

lemma collectBundle_step_comm:
  assumes "Finish_collectBundle co cfg p ast trace res retErr ih = (e1, r1, evs1)"
  shows "(commErrors evs1 = [] \<and> e1 = retErr)
       \<or> (retErr = None \<and> outputMode ih = explainAnalyzeDebugOutput
          \<and> (\<exists>x. e1 = Some x \<and> commErrors evs1 = [x]))"
  using assms
  by (auto simp: Finish_collectBundle_def Let_def commErrors_append
           split: if_splits option.splits prod.splits)

lemma withStatementTrace_step_comm:
  "commErrors (Finish_withStatementTrace trace sql ih) = []"
  by (simp add: Finish_withStatementTrace_def split: option.splits)

lemma setExplainAnalyzePlanResult_comm:
  assumes "setExplainAnalyzePlanResult co res pt ih = (e, r, evs)"
  shows "commErrors evs = (case e of None \<Rightarrow> [] | Some err \<Rightarrow> [err])"
  using assms
  by (auto simp: setExplainAnalyzePlanResult_def Let_def commErrors_append
           dest: addRows_commErrors split: if_splits prod.splits)

lemma explainAnalyzePlan_step_comm:
  assumes "Finish_explainAnalyzePlan co cfg pt res e1 ih = (e2, r2, evs3)"
  shows "(commErrors evs3 = [] \<and> e2 = e1)
       \<or> (e1 = None \<and> outputMode ih = explainAnalyzePlanOutput
          \<and> (\<exists>x. e2 = Some x \<and> commErrors evs3 = [x]))"
proof (cases "outputMode ih = explainAnalyzePlanOutput \<and> e1 = None")
  case True
  with assms setExplainAnalyzePlanResult_comm[of co res _ ih e2 r2 evs3] show ?thesis
    by (cases e2) (auto simp: Finish_explainAnalyzePlan_def Let_def)
next
  case False
  with assms show ?thesis by (auto simp: Finish_explainAnalyzePlan_def)
qed

lemma flowLoop_only_logs:
  assumes "flowLoop co ast trace flows acc = (flows', n, evs)"
  shows "commErrors evs = []" "filter isSpanEvent evs = []" "filter isBundleEvent evs = []"
    "filter isStatsEvent evs = []"
proof -
  have log: "\<exists>msg. ev = EvLogVInfo 1 msg" if "ev \<in> set evs" for ev
    using assms that by (rule flowLoop_events)
  show "commErrors evs = []" by (rule commErrors_empty_if) (use log in force)
  show "filter isSpanEvent evs = []" by (rule filter_empty_if) (use log in force)
  show "filter isBundleEvent evs = []" by (rule filter_empty_if) (use log in force)
  show "filter isStatsEvent evs = []" by (rule filter_empty_if) (use log in force)
qed

lemma stmtStats_step_cases:
  assumes "Finish_stmtStats co appSt p ast trace e ih = (p', evs4)"
  shows "(getStatsForStmt appSt (fingerprint ih) (implicitTxn ih) e False = None \<and> p' = p
          \<and> evs4 = [EvGetStatsForStmt (fingerprint ih) (implicitTxn ih) e False])
       \<or> (\<exists>r flows' n logs.
            getStatsForStmt appSt (fingerprint ih) (implicitTxn ih) e False = Some r
          \<and> flowLoop co ast trace (distSQLFlowInfos p) 0 = (flows', n, logs)
          \<and> p' = p\<lparr>distSQLFlowInfos := flows'\<rparr>
          \<and> evs4 = EvGetStatsForStmt (fingerprint ih) (implicitTxn ih) e False # logs
                     @ [EvStatsLock r, EvStatsRecord r 1 (sint n), EvStatsUnlock r])"
  using assms
  by (auto simp: Finish_stmtStats_def Let_def split: option.splits prod.splits)

lemma stmtStats_step_comm:
  assumes "Finish_stmtStats co appSt p ast trace e ih = (p', evs4)"
  shows "commErrors evs4 = []"
  using stmtStats_step_cases[OF assms]
  by (auto simp: commErrors_append dest: flowLoop_only_logs(1))

lemma Finish_writes_only_without_error:
  "commErrors (finishEvents (Finish co cfg appSt pt p ast sql res retErr ih)) \<noteq> []
     \<Longrightarrow> retErr = None"
proof (cases "sp ih")
  case None
  assume "commErrors (finishEvents (Finish co cfg appSt pt p ast sql res retErr ih)) \<noteq> []"
  with None show ?thesis by (simp add: Finish_unarmed)
next
  case (Some s)
  assume ne: "commErrors (finishEvents (Finish co cfg appSt pt p ast sql res retErr ih)) \<noteq> []"
  from Some obtain e1 r1 evs1 e2 r2 evs3 p' evs4 where
    cb: "Finish_collectBundle co cfg p ast (GetRecording co s) res retErr ih = (e1, r1, evs1)" and
    pl: "Finish_explainAnalyzePlan co cfg pt r1 e1 ih = (e2, r2, evs3)" and
    st: "Finish_stmtStats co appSt p ast (GetRecording co s) e2 ih = (p', evs4)" and
    fin: "Finish co cfg appSt pt p ast sql res retErr ih =
       \<lparr>finishErr = e2, finishHelper = ih, finishPlanner = p', finishRes = r2,
        finishEvents = [EvSpanFinish s, EvSpanGetRecording s] @ evs1
          @ Finish_withStatementTrace (GetRecording co s) sql ih @ evs3 @ evs4\<rparr>"
    by (rule Finish_armedE)
  have ce: "commErrors (finishEvents (Finish co cfg appSt pt p ast sql res retErr ih))
              = commErrors evs1 @ commErrors evs3"
    by (simp add: fin commErrors_append withStatementTrace_step_comm stmtStats_step_comm[OF st])
  from collectBundle_step_comm[OF cb] explainAnalyzePlan_step_comm[OF pl] ne
  show ?thesis unfolding ce by auto
qed


subsection \<open>What kinds of calls each step makes\<close>

lemma addRows_no_other_events:
  assumes "addRows co rows res = (e, res', evs)"
  shows "filter isSpanEvent evs = []" "filter isBundleEvent evs = []"
    "filter isStatsEvent evs = []"
proof -
  have row: "\<exists>row err. ev = EvAddRow row err" if "ev \<in> set evs" for ev
    using assms that by (rule addRows_events)
  show "filter isSpanEvent evs = []" by (rule filter_empty_if) (use row in force)
  show "filter isBundleEvent evs = []" by (rule filter_empty_if) (use row in force)
  show "filter isStatsEvent evs = []" by (rule filter_empty_if) (use row in force)
qed

lemma setExplainAnalyzePlanResult_no_other_events:
  assumes "setExplainAnalyzePlanResult co res pt ih = (e, r, evs)"
  shows "filter isSpanEvent evs = []" "filter isBundleEvent evs = []"
    "filter isStatsEvent evs = []"
  using assms
  by (auto simp: setExplainAnalyzePlanResult_def Let_def
           dest: addRows_no_other_events split: if_splits prod.splits)

lemma explainAnalyzePlan_step_events:
  assumes "Finish_explainAnalyzePlan co cfg pt res e1 ih = (e2, r2, evs3)"
  shows "filter isSpanEvent evs3 = []" "filter isBundleEvent evs3 = []"
    "filter isStatsEvent evs3 = []"
  using assms
  by (auto simp: Finish_explainAnalyzePlan_def Let_def
           dest: setExplainAnalyzePlanResult_no_other_events split: if_splits)

lemma withStatementTrace_step_events:
  "filter isSpanEvent (Finish_withStatementTrace trace sql ih) = []"
  "filter isBundleEvent (Finish_withStatementTrace trace sql ih) = []"
  "filter isStatsEvent (Finish_withStatementTrace trace sql ih) = []"
  by (simp_all add: Finish_withStatementTrace_def split: option.splits)

lemma collectBundle_step_events:
  assumes "Finish_collectBundle co cfg p ast trace res retErr ih = (e1, r1, evs1)"
  shows "filter isSpanEvent evs1 = []" "filter isStatsEvent evs1 = []"
    "filter isBundleEvent evs1 =
       (if collectBundle ih then
          [EvBuildStatementBundle (planStringForBundle co ih) trace (Placeholders p),
           EvBundleInsert (fingerprint ih) ast (diagRequestID ih)
             (buildStatementBundle (planStringForBundle co ih) trace (Placeholders p))]
          @ (case finishCollectionDiagnostics ih of
               None \<Rightarrow> []
             | Some cb \<Rightarrow> [EvFinishCollectionDiagnostics cb, EvTelemetryInc])
        else [])"
  using assms
  by (auto simp: Finish_collectBundle_def Let_def split: if_splits option.splits prod.splits)

lemma stmtStats_step_events:
  assumes "Finish_stmtStats co appSt p ast trace e ih = (p', evs4)"
  shows "filter isSpanEvent evs4 = []" "filter isBundleEvent evs4 = []"
    "filter isStatsEvent evs4 =
       EvGetStatsForStmt (fingerprint ih) (implicitTxn ih) e False
       # (case getStatsForStmt appSt (fingerprint ih) (implicitTxn ih) e False of
            None \<Rightarrow> []
          | Some r \<Rightarrow>
              [EvStatsLock r,
               EvStatsRecord r 1 (sint (spec_networkBytesSent co trace (distSQLFlowInfos p))),
               EvStatsUnlock r])"
proof -
  let ?ev = "EvGetStatsForStmt (fingerprint ih) (implicitTxn ih) e False"
  from stmtStats_step_cases[OF assms] consider
    (missing) "getStatsForStmt appSt (fingerprint ih) (implicitTxn ih) e False = None"
      "evs4 = [?ev]"
  | (found) r flows' n logs where
      "getStatsForStmt appSt (fingerprint ih) (implicitTxn ih) e False = Some r"
      "flowLoop co ast trace (distSQLFlowInfos p) 0 = (flows', n, logs)"
      "evs4 = ?ev # logs @ [EvStatsLock r, EvStatsRecord r 1 (sint n), EvStatsUnlock r]"
    by (elim disjE conjE exE) auto
  then have "filter isSpanEvent evs4 = [] \<and> filter isBundleEvent evs4 = []
    \<and> filter isStatsEvent evs4 =
       ?ev # (case getStatsForStmt appSt (fingerprint ih) (implicitTxn ih) e False of
            None \<Rightarrow> []
          | Some r \<Rightarrow>
              [EvStatsLock r,
               EvStatsRecord r 1 (sint (spec_networkBytesSent co trace (distSQLFlowInfos p))),
               EvStatsUnlock r])"
  proof cases
    case missing
    then show ?thesis by simp
  next
    case found
    from flowLoop_total[OF found(2)] have "n = spec_networkBytesSent co trace (distSQLFlowInfos p)"
      by simp
    with found(1,3) flowLoop_only_logs[OF found(2)] show ?thesis by simp
  qed
  then show "filter isSpanEvent evs4 = []" "filter isBundleEvent evs4 = []"
    "filter isStatsEvent evs4 =
       ?ev # (case getStatsForStmt appSt (fingerprint ih) (implicitTxn ih) e False of
            None \<Rightarrow> []
          | Some r \<Rightarrow>
              [EvStatsLock r,
               EvStatsRecord r 1 (sint (spec_networkBytesSent co trace (distSQLFlowInfos p))),
               EvStatsUnlock r])"
    by simp_all
qed

lemma Finish_armed_span_events:
  assumes "sp ih = Some s"
  shows "filter isSpanEvent (finishEvents (Finish co cfg appSt pt p ast sql res retErr ih))
           = [EvSpanFinish s, EvSpanGetRecording s]"
proof -
  from assms obtain e1 r1 evs1 e2 r2 evs3 p' evs4 where
    cb: "Finish_collectBundle co cfg p ast (GetRecording co s) res retErr ih = (e1, r1, evs1)" and
    pl: "Finish_explainAnalyzePlan co cfg pt r1 e1 ih = (e2, r2, evs3)" and
    st: "Finish_stmtStats co appSt p ast (GetRecording co s) e2 ih = (p', evs4)" and
    fin: "Finish co cfg appSt pt p ast sql res retErr ih =
       \<lparr>finishErr = e2, finishHelper = ih, finishPlanner = p', finishRes = r2,
        finishEvents = [EvSpanFinish s, EvSpanGetRecording s] @ evs1
          @ Finish_withStatementTrace (GetRecording co s) sql ih @ evs3 @ evs4\<rparr>"
    by (rule Finish_armedE)
  show ?thesis
    by (simp add: fin collectBundle_step_events(1)[OF cb] withStatementTrace_step_events(1)
          explainAnalyzePlan_step_events(1)[OF pl] stmtStats_step_events(1)[OF st])
qed

subsection \<open>Setup\<close>

lemma Setup_not_armed:
  assumes "\<not> needFinish (Setup c cfg appSt p reg fp implicit ih nextSpan)"
  shows "sp (setupHelper (Setup c cfg appSt p reg fp implicit ih nextSpan)) = sp ih"
  using assms
  by (auto simp: Setup_def Let_def Setup_mode_def StartSnowballTrace_def
           split: outputMode.splits prod.splits if_splits)

lemma Setup_armed:
  assumes "needFinish (Setup c cfg appSt p reg fp implicit ih nextSpan)"
  shows "sp (setupHelper (Setup c cfg appSt p reg fp implicit ih nextSpan)) = Some nextSpan"
  using assms
  by (auto simp: Setup_def Let_def Setup_mode_def StartSnowballTrace_def
           split: outputMode.splits prod.splits if_splits)

lemma Setup_no_span_events:
  "filter isSpanEvent (setupEvents (Setup c cfg appSt p reg fp implicit ih nextSpan)) = []"
  by (auto simp: Setup_def Let_def Setup_mode_def StartSnowballTrace_def
           split: outputMode.splits prod.splits if_splits)

subsection \<open>Runs\<close>

lemma run_append:
  "run ex (xs @ ys) st =
     (case run ex xs st of
        (st', evs) \<Rightarrow> (case run ex ys st' of (st'', evs') \<Rightarrow> (st'', evs @ evs')))"
  by (induction xs arbitrary: st) (auto split: prod.splits)

lemma step_other:
  assumes "\<not> isSetupOrFinish c"
  shows "sp (stHelper (fst (step ex c st))) = sp (stHelper st)"
    "filter isSpanEvent (snd (step ex c st)) = []"
  using assms
  by (cases c; simp add: SetOutputMode_def SetDiscardRows_def RecordExplainPlan_def
        RecordPlanInfo_def PlanForStats_def Let_def split: option.splits sum.splits)+

lemma run_other:
  assumes "\<forall>c \<in> set cs. \<not> isSetupOrFinish c"
  shows "sp (stHelper (fst (run ex cs st))) = sp (stHelper st)
       \<and> filter isSpanEvent (snd (run ex cs st)) = []"
  using assms
proof (induction cs arbitrary: st)
  case Nil
  then show ?case by simp
next
  case (Cons c cs)
  obtain st' evs where s: "step ex c st = (st', evs)" by (cases "step ex c st")
  obtain st'' evs' where r: "run ex cs st' = (st'', evs')" by (cases "run ex cs st'")
  from Cons.prems have c: "\<not> isSetupOrFinish c" and cs: "\<forall>c \<in> set cs. \<not> isSetupOrFinish c"
    by simp_all
  from step_other[OF c, of ex st] s have 1: "sp (stHelper st') = sp (stHelper st)"
    "filter isSpanEvent evs = []" by simp_all
  from Cons.IH[OF cs, of st'] r have 2: "sp (stHelper st'') = sp (stHelper st')"
    "filter isSpanEvent evs' = []" by simp_all
  from 1 2 s r show ?case by simp
qed

lemma Finish_keeps_helper:
  "finishHelper (Finish co cfg appSt pt p ast sql res retErr ih) = ih"
  by (cases "sp ih") (simp_all add: Finish_def Let_def split: prod.splits)

lemma step_Finish_armed:
  assumes "sp (stHelper st) = Some s"
  shows "sp (stHelper (fst (step ex (CallFinish ast sql retErr) st))) = Some s"
    "filter isSpanEvent (snd (step ex (CallFinish ast sql retErr) st))
       = [EvSpanFinish s, EvSpanGetRecording s]"
  using assms by (simp_all add: Let_def Finish_keeps_helper Finish_armed_span_events)

lemma run_without_Setup:
  assumes "\<forall>c \<in> set cs. \<not> isSetup c" and "sp (stHelper st) = Some s"
  shows "sp (stHelper (fst (run ex cs st))) = Some s
       \<and> filter isSpanEvent (snd (run ex cs st))
           = concat (replicate (length (filter isFinish cs))
                       [EvSpanFinish s, EvSpanGetRecording s])"
  using assms
proof (induction cs arbitrary: st)
  case Nil
  then show ?case by simp
next
  case (Cons c cs)
  obtain st' evs where s: "step ex c st = (st', evs)" by (cases "step ex c st")
  obtain st'' evs' where r: "run ex cs st' = (st'', evs')" by (cases "run ex cs st'")
  from Cons.prems have c: "\<not> isSetup c" and cs: "\<forall>c \<in> set cs. \<not> isSetup c"
    by simp_all
  have 1: "sp (stHelper st') = Some s
         \<and> filter isSpanEvent evs
             = (if isFinish c then [EvSpanFinish s, EvSpanGetRecording s] else [])"
  proof (cases "isFinish c")
    case True
    then obtain ast sql retErr where "c = CallFinish ast sql retErr" by (cases c) simp_all
    with step_Finish_armed[OF Cons.prems(2), of ex ast sql retErr] s True show ?thesis by simp
  next
    case False
    with c have "\<not> isSetupOrFinish c" by (cases c) simp_all
    from step_other[OF this, of ex st] s Cons.prems(2) False show ?thesis by simp
  qed
  then have sp': "sp (stHelper st') = Some s" by simp
  from Cons.IH[OF cs sp'] r have 2: "sp (stHelper st'') = Some s"
    "filter isSpanEvent evs'
       = concat (replicate (length (filter isFinish cs)) [EvSpanFinish s, EvSpanGetRecording s])"
    by simp_all
  from 1 2 s r show ?case by simp
qed

subsection \<open>Finish on an armed helper\<close>

lemma Finish_armed_stats:
  assumes "sp ih = Some s"
  shows "filter isStatsEvent (finishEvents (Finish co cfg appSt pt p ast sql res retErr ih))
         = EvGetStatsForStmt (fingerprint ih) (implicitTxn ih)
             (finishErr (Finish co cfg appSt pt p ast sql res retErr ih)) False
           # (case getStatsForStmt appSt (fingerprint ih) (implicitTxn ih)
                     (finishErr (Finish co cfg appSt pt p ast sql res retErr ih)) False of
                None \<Rightarrow> []
              | Some r \<Rightarrow>
                  [EvStatsLock r,
                   EvStatsRecord r 1
                     (sint (spec_networkBytesSent co (GetRecording co s) (distSQLFlowInfos p))),
                   EvStatsUnlock r])
       \<and> (\<forall>r. getStatsForStmt appSt (fingerprint ih) (implicitTxn ih)
                 (finishErr (Finish co cfg appSt pt p ast sql res retErr ih)) False = Some r
            \<longrightarrow> (\<exists>before. finishEvents (Finish co cfg appSt pt p ast sql res retErr ih)
                   = before @
                     [EvStatsLock r,
                      EvStatsRecord r 1
                        (sint (spec_networkBytesSent co (GetRecording co s) (distSQLFlowInfos p))),
                      EvStatsUnlock r]))"
proof -
  from assms obtain e1 r1 evs1 e2 r2 evs3 p' evs4 where
    cb: "Finish_collectBundle co cfg p ast (GetRecording co s) res retErr ih = (e1, r1, evs1)" and
    pl: "Finish_explainAnalyzePlan co cfg pt r1 e1 ih = (e2, r2, evs3)" and
    st: "Finish_stmtStats co appSt p ast (GetRecording co s) e2 ih = (p', evs4)" and
    fin: "Finish co cfg appSt pt p ast sql res retErr ih =
       \<lparr>finishErr = e2, finishHelper = ih, finishPlanner = p', finishRes = r2,
        finishEvents = [EvSpanFinish s, EvSpanGetRecording s] @ evs1
          @ Finish_withStatementTrace (GetRecording co s) sql ih @ evs3 @ evs4\<rparr>"
    by (rule Finish_armedE)
  have filt: "filter isStatsEvent (finishEvents (Finish co cfg appSt pt p ast sql res retErr ih))
                = filter isStatsEvent evs4"
    by (simp add: fin collectBundle_step_events(2)[OF cb] withStatementTrace_step_events(3)
          explainAnalyzePlan_step_events(3)[OF pl])
  have suffix: "\<exists>before. finishEvents (Finish co cfg appSt pt p ast sql res retErr ih)
                   = before @
                     [EvStatsLock r,
                      EvStatsRecord r 1
                        (sint (spec_networkBytesSent co (GetRecording co s) (distSQLFlowInfos p))),
                      EvStatsUnlock r]"
    if found: "getStatsForStmt appSt (fingerprint ih) (implicitTxn ih) e2 False = Some r" for r
  proof -
    from stmtStats_step_cases[OF st] found obtain flows' n logs where
      loop: "flowLoop co ast (GetRecording co s) (distSQLFlowInfos p) 0 = (flows', n, logs)" and
      evs4: "evs4 = EvGetStatsForStmt (fingerprint ih) (implicitTxn ih) e2 False # logs
                     @ [EvStatsLock r, EvStatsRecord r 1 (sint n), EvStatsUnlock r]"
      by auto
    from flowLoop_total[OF loop]
    have n: "n = spec_networkBytesSent co (GetRecording co s) (distSQLFlowInfos p)" by simp
    have "finishEvents (Finish co cfg appSt pt p ast sql res retErr ih)
            = ([EvSpanFinish s, EvSpanGetRecording s] @ evs1
                 @ Finish_withStatementTrace (GetRecording co s) sql ih @ evs3
                 @ EvGetStatsForStmt (fingerprint ih) (implicitTxn ih) e2 False # logs)
              @ [EvStatsLock r,
                 EvStatsRecord r 1
                   (sint (spec_networkBytesSent co (GetRecording co s) (distSQLFlowInfos p))),
                 EvStatsUnlock r]"
      by (simp add: fin evs4 n)
    then show ?thesis by blast
  qed
  show ?thesis
    using suffix by (simp add: filt stmtStats_step_events(3)[OF st]) (simp add: fin)
qed

lemma Finish_armed_bundle_events:
  assumes "collectBundle ih" and "sp ih = Some s"
  shows "filter isBundleEvent (finishEvents (Finish co cfg appSt pt p ast sql res retErr ih))
         = [EvBuildStatementBundle (planStringForBundle co ih) (GetRecording co s) (Placeholders p),
            EvBundleInsert (fingerprint ih) ast (diagRequestID ih)
              \<lparr>bundlePlan = planStringForBundle co ih, bundleTrace = GetRecording co s,
               bundlePlaceholders = Placeholders p\<rparr>]
           @ (case finishCollectionDiagnostics ih of
                None \<Rightarrow> []
              | Some cb \<Rightarrow> [EvFinishCollectionDiagnostics cb, EvTelemetryInc])"
proof -
  from assms(2) obtain e1 r1 evs1 e2 r2 evs3 p' evs4 where
    cb: "Finish_collectBundle co cfg p ast (GetRecording co s) res retErr ih = (e1, r1, evs1)" and
    pl: "Finish_explainAnalyzePlan co cfg pt r1 e1 ih = (e2, r2, evs3)" and
    st: "Finish_stmtStats co appSt p ast (GetRecording co s) e2 ih = (p', evs4)" and
    fin: "Finish co cfg appSt pt p ast sql res retErr ih =
       \<lparr>finishErr = e2, finishHelper = ih, finishPlanner = p', finishRes = r2,
        finishEvents = [EvSpanFinish s, EvSpanGetRecording s] @ evs1
          @ Finish_withStatementTrace (GetRecording co s) sql ih @ evs3 @ evs4\<rparr>"
    by (rule Finish_armedE)
  have "filter isBundleEvent (finishEvents (Finish co cfg appSt pt p ast sql res retErr ih))
          = filter isBundleEvent evs1"
    by (simp add: fin withStatementTrace_step_events(2) explainAnalyzePlan_step_events(2)[OF pl]
          stmtStats_step_events(2)[OF st])
  with assms(1) show ?thesis
    by (simp add: collectBundle_step_events(3)[OF cb] buildStatementBundle_def)
qed

lemma isStatsRecord_filter:
  "filter isStatsRecord (filter isStatsEvent evs) = filter isStatsRecord evs"
proof -
  have "(isStatsEvent e \<and> isStatsRecord e) = isStatsRecord e" for e by (cases e) simp_all
  then show ?thesis by simp
qed

lemma Finish_armed_stats_record:
  assumes "sp ih = Some s"
  shows "filter isStatsRecord (finishEvents (Finish co cfg appSt pt p ast sql res retErr ih))
         = (case getStatsForStmt appSt (fingerprint ih) (implicitTxn ih)
                   (finishErr (Finish co cfg appSt pt p ast sql res retErr ih)) False of
              None \<Rightarrow> []
            | Some r \<Rightarrow>
                [EvStatsRecord r 1
                   (sint (spec_networkBytesSent co (GetRecording co s) (distSQLFlowInfos p)))])"
proof -
  have "filter isStatsRecord (finishEvents (Finish co cfg appSt pt p ast sql res retErr ih))
          = filter isStatsRecord
              (filter isStatsEvent (finishEvents (Finish co cfg appSt pt p ast sql res retErr ih)))"
    by (simp only: isStatsRecord_filter)
  also have "\<dots> = (case getStatsForStmt appSt (fingerprint ih) (implicitTxn ih)
                   (finishErr (Finish co cfg appSt pt p ast sql res retErr ih)) False of
              None \<Rightarrow> []
            | Some r \<Rightarrow>
                [EvStatsRecord r 1
                   (sint (spec_networkBytesSent co (GetRecording co s) (distSQLFlowInfos p)))])"
    using Finish_armed_stats[OF assms, of co cfg appSt pt p ast sql res retErr]
    by (simp split: option.splits)
  finally show ?thesis .
qed

lemma spec_networkBytesSent_filter:
  "spec_networkBytesSent co trace flows
     = sum_list (map (spec_flowBytesSent co trace) (filter (\<lambda>a. \<not> spec_flowFails co trace a) flows))"
  by (induction flows) (simp_all add: spec_networkBytesSent_simps)

lemma Finish_error_independent_of_analysis:
  "finishErr (Finish (co\<lparr>AddTrace := addTrace', GetNetworkBytesSent := getBytes'\<rparr>) cfg appSt pt
                (p\<lparr>distSQLFlowInfos := flows'\<rparr>) ast sql res retErr ih)
     = finishErr (Finish co cfg appSt pt p ast sql res retErr ih)"
proof -
  let ?co = "co\<lparr>AddTrace := addTrace', GetNetworkBytesSent := getBytes'\<rparr>"
  let ?p = "p\<lparr>distSQLFlowInfos := flows'\<rparr>"
  have ps: "planStringForBundle ?co ih = planStringForBundle co ih"
    by (simp add: planStringForBundle_def Let_def split: option.splits sum.splits)
  have cb: "Finish_collectBundle ?co cfg ?p ast trace r e ih
              = Finish_collectBundle co cfg p ast trace r e ih" for trace r e
    by (simp add: Finish_collectBundle_def ps Let_def split: option.splits prod.splits)
  have rows: "planRowsForExplainAnalyze ?co t ih = planRowsForExplainAnalyze co t ih" for t
    by (simp add: planRowsForExplainAnalyze_def Let_def split: option.splits sum.splits)
  have ar: "addRows ?co rs r = addRows co rs r" for rs r
    by (induction rs arbitrary: r) (simp_all split: option.splits)
  have pl: "Finish_explainAnalyzePlan ?co cfg pt r e ih
              = Finish_explainAnalyzePlan co cfg pt r e ih" for r e
    by (simp add: Finish_explainAnalyzePlan_def setExplainAnalyzePlanResult_def rows ar Let_def)
  show ?thesis
    by (cases "sp ih") (simp_all add: Finish_def cb pl Let_def split: prod.splits)
qed

lemma addRows_rows:
  "addRows co rows res = (None, res', evs) \<Longrightarrow>
     resRows res' = resRows res @ map (\<lambda>row. [row]) rows"
  by (induction rows arbitrary: res res' evs) (auto split: option.splits prod.splits)

lemma collectBundle_step_passthrough:
  assumes "outputMode ih \<noteq> explainAnalyzeDebugOutput"
    and "Finish_collectBundle co cfg p ast trace res retErr ih = (e1, r1, evs1)"
  shows "e1 = retErr" "r1 = res"
  using assms by (auto simp: Finish_collectBundle_def Let_def split: if_splits)

lemma Finish_deterministic_phase_times:
  assumes "DeterministicExplainAnalyze cfg"
  shows "Finish co cfg appSt pt1 p ast sql res retErr ih
           = Finish co cfg appSt pt2 p ast sql res retErr ih"
proof -
  from assms have "Finish_explainAnalyzePlan co cfg pt1 r e ih
                     = Finish_explainAnalyzePlan co cfg pt2 r e ih" for r e
    by (simp add: Finish_explainAnalyzePlan_def)
  then show ?thesis by (cases "sp ih") (simp_all add: Finish_def)
qed

lemma Setup_arms_outside_unmodified_mode:
  "outputMode ih \<noteq> unmodifiedOutput \<Longrightarrow>
     needFinish (Setup c cfg appSt p reg fp implicit ih nextSpan)"
  by (auto simp: Setup_def Let_def Setup_mode_def StartSnowballTrace_def
           split: outputMode.splits prod.splits)

text \<open>
  The bytes per node come as a Go map, ranged over in no fixed order; the list stands for
  one such order, and the total is the same for every other.
\<close>

lemma sumBytesSent_any_order:
  assumes "mset m = mset m'"
  shows "sumBytesSent m acc = sumBytesSent m' acc"
proof -
  from assms have "mset (map snd m) = mset (map snd m')" by (metis mset_map)
  then have "sum_list (map snd m) = sum_list (map snd m')" by (metis sum_mset_sum_list)
  then show ?thesis by (simp add: sumBytesSent_sum)
qed

section \<open>Claims\<close>

text \<open>
  C1. The errors that the writes to the statement result came back with are the
  \<open>commErrors\<close> of the calls \<^verbatim>\<open>Finish\<close> made: the error of \<^verbatim>\<open>setExplainBundleResult\<close>
  (the bundle-locator row of the debug mode) and the error of a failed \<^verbatim>\<open>AddRow\<close>
  (the rows of the plan mode). If such a communication error occurred, \<^verbatim>\<open>Finish\<close>
  returns it; in every other case \<^verbatim>\<open>Finish\<close> returns the error it was given.
\<close>

theorem Finish_error_is_comm_error_or_original:
  "(\<forall>e \<in> set (commErrors (finishEvents (Finish co cfg appSt pt p ast sql res retErr ih))).
       finishErr (Finish co cfg appSt pt p ast sql res retErr ih) = Some e)
   \<and> (commErrors (finishEvents (Finish co cfg appSt pt p ast sql res retErr ih)) = []
        \<longrightarrow> finishErr (Finish co cfg appSt pt p ast sql res retErr ih) = retErr)"
proof (cases "sp ih")
  case None
  then show ?thesis by (simp add: Finish_unarmed)
next
  case (Some s)
  then obtain e1 r1 evs1 e2 r2 evs3 p' evs4 where
    cb: "Finish_collectBundle co cfg p ast (GetRecording co s) res retErr ih = (e1, r1, evs1)" and
    pl: "Finish_explainAnalyzePlan co cfg pt r1 e1 ih = (e2, r2, evs3)" and
    st: "Finish_stmtStats co appSt p ast (GetRecording co s) e2 ih = (p', evs4)" and
    fin: "Finish co cfg appSt pt p ast sql res retErr ih =
       \<lparr>finishErr = e2, finishHelper = ih, finishPlanner = p', finishRes = r2,
        finishEvents = [EvSpanFinish s, EvSpanGetRecording s] @ evs1
          @ Finish_withStatementTrace (GetRecording co s) sql ih @ evs3 @ evs4\<rparr>"
    by (rule Finish_armedE)
  have ce: "commErrors (finishEvents (Finish co cfg appSt pt p ast sql res retErr ih))
              = commErrors evs1 @ commErrors evs3"
    by (simp add: fin commErrors_append withStatementTrace_step_comm stmtStats_step_comm[OF st])
  from collectBundle_step_comm[OF cb] explainAnalyzePlan_step_comm[OF pl]
  show ?thesis unfolding ce by (auto simp: fin)
qed

theorem Finish_error_is_comm_error_or_original_witness:
  "Error ''broken pipe''
     \<in> set (commErrors (finishEvents (Finish demoCollabBroken demoCfg demoAppStats demoPhaseTimes
                demoPlanner ''SELECT 1'' ''SELECT 1'' demoRes None demoArmedPlan)))
   \<and> finishErr (Finish demoCollabBroken demoCfg demoAppStats demoPhaseTimes
        demoPlanner ''SELECT 1'' ''SELECT 1'' demoRes None demoArmedPlan)
       = Some (Error ''broken pipe'')
   \<and> commErrors (finishEvents (Finish demoCollab demoCfg demoAppStats demoPhaseTimes
        demoPlanner ''SELECT 1'' ''SELECT 1'' demoRes (Some (Error ''exec failed'')) demoArmedPlan))
       = []
   \<and> finishErr (Finish demoCollab demoCfg demoAppStats demoPhaseTimes
        demoPlanner ''SELECT 1'' ''SELECT 1'' demoRes (Some (Error ''exec failed'')) demoArmedPlan)
       = Some (Error ''exec failed'')"
proof -
  have a: "Error ''broken pipe''
     \<in> set (commErrors (finishEvents (Finish demoCollabBroken demoCfg demoAppStats demoPhaseTimes
                demoPlanner ''SELECT 1'' ''SELECT 1'' demoRes None demoArmedPlan)))"
    by code_simp
  have b: "commErrors (finishEvents (Finish demoCollab demoCfg demoAppStats demoPhaseTimes
        demoPlanner ''SELECT 1'' ''SELECT 1'' demoRes (Some (Error ''exec failed'')) demoArmedPlan))
       = []"
    by code_simp
  from a b
    Finish_error_is_comm_error_or_original[of demoCollabBroken demoCfg demoAppStats demoPhaseTimes
        demoPlanner "''SELECT 1''" "''SELECT 1''" demoRes None demoArmedPlan]
    Finish_error_is_comm_error_or_original[of demoCollab demoCfg demoAppStats demoPhaseTimes
        demoPlanner "''SELECT 1''" "''SELECT 1''" demoRes "Some (Error ''exec failed'')" demoArmedPlan]
  show ?thesis by blast
qed

text \<open>
  C2, the claim as stated fails: the lookup is made with create-if-nonexistent
  \<^verbatim>\<open>false\<close>, and when it returns no record an armed \<^verbatim>\<open>Finish\<close> folds nothing in.
\<close>

theorem Finish_no_fold_in_without_record_counterexample:
  "sp demoArmed = Some 0
   \<and> filter isStatsRecord (finishEvents (Finish demoCollab demoCfg demoAppStatsMissing
        demoPhaseTimes demoPlanner ''SELECT 1'' ''SELECT 1'' demoRes None demoArmed)) = []"
  by code_simp

text \<open>
  C2, as amended. On every \<^verbatim>\<open>Finish\<close> call of an armed execution, \<^verbatim>\<open>Finish\<close> looks up
  the shared statistics record once, without creating it: it calls \<^verbatim>\<open>getStatsForStmt\<close>
  with the fingerprint, the implicit-transaction bit, the error it is about to return
  and \<^verbatim>\<open>false\<close>. When a record is returned, \<^verbatim>\<open>Finish\<close> ends by locking it, recording
  once the total network bytes sent (summed over every node of every distributed
  sub-flow whose analysis succeeds) and unlocking it; when none is returned, nothing is
  folded in.
\<close>

theorem Finish_folds_network_bytes_into_found_record:
  assumes "sp ih = Some s"
  shows "filter isStatsEvent (finishEvents (Finish co cfg appSt pt p ast sql res retErr ih))
         = EvGetStatsForStmt (fingerprint ih) (implicitTxn ih)
             (finishErr (Finish co cfg appSt pt p ast sql res retErr ih)) False
           # (case getStatsForStmt appSt (fingerprint ih) (implicitTxn ih)
                     (finishErr (Finish co cfg appSt pt p ast sql res retErr ih)) False of
                None \<Rightarrow> []
              | Some r \<Rightarrow>
                  [EvStatsLock r,
                   EvStatsRecord r 1
                     (sint (spec_networkBytesSent co (GetRecording co s) (distSQLFlowInfos p))),
                   EvStatsUnlock r])
       \<and> (\<forall>r. getStatsForStmt appSt (fingerprint ih) (implicitTxn ih)
                 (finishErr (Finish co cfg appSt pt p ast sql res retErr ih)) False = Some r
            \<longrightarrow> (\<exists>before. finishEvents (Finish co cfg appSt pt p ast sql res retErr ih)
                   = before @
                     [EvStatsLock r,
                      EvStatsRecord r 1
                        (sint (spec_networkBytesSent co (GetRecording co s) (distSQLFlowInfos p))),
                      EvStatsUnlock r]))"
  using assms by (rule Finish_armed_stats)

theorem Finish_folds_network_bytes_into_found_record_witness:
  "sp demoArmed = Some 0
   \<and> filter isStatsEvent (finishEvents (Finish demoCollab demoCfg demoAppStats demoPhaseTimes
         demoPlanner ''SELECT 1'' ''SELECT 1'' demoRes None demoArmed))
       = [EvGetStatsForStmt ''SELECT _'' True None False,
          EvStatsLock 5, EvStatsRecord 5 1 60, EvStatsUnlock 5]
   \<and> (\<exists>before. finishEvents (Finish demoCollab demoCfg demoAppStats demoPhaseTimes
         demoPlanner ''SELECT 1'' ''SELECT 1'' demoRes None demoArmed)
       = before @ [EvStatsLock 5, EvStatsRecord 5 1 60, EvStatsUnlock 5])"
proof -
  have h: "sp demoArmed = Some 0" by code_simp
  have e: "finishErr (Finish demoCollab demoCfg demoAppStats demoPhaseTimes
         demoPlanner ''SELECT 1'' ''SELECT 1'' demoRes None demoArmed) = None"
    by code_simp
  have f: "fingerprint demoArmed = ''SELECT _''" "implicitTxn demoArmed = True"
    by code_simp+
  have n: "sint (spec_networkBytesSent demoCollab (GetRecording demoCollab 0)
                   (distSQLFlowInfos demoPlanner)) = 60"
    by code_simp
  have g: "getStatsForStmt demoAppStats ''SELECT _'' True None False = Some 5"
    by code_simp
  from Finish_folds_network_bytes_into_found_record[OF h, where co=demoCollab and cfg=demoCfg
         and appSt=demoAppStats and pt=demoPhaseTimes and p=demoPlanner and ast="''SELECT 1''"
         and sql="''SELECT 1''" and res=demoRes and retErr=None]
  show ?thesis by (simp add: h e f n g)
qed

text \<open>
  C3, the claim as stated fails: the completion callback is invoked and the telemetry
  counter incremented only under \<^verbatim>\<open>if ih.finishCollectionDiagnostics != nil\<close>. In the
  debug mode \<^verbatim>\<open>Setup\<close> sets \<^verbatim>\<open>collectBundle\<close> without registering a callback, and
  \<^verbatim>\<open>Finish\<close> persists the bundle but leaves the counter alone.
\<close>

theorem Finish_debug_bundle_without_telemetry_counterexample:
  "collectBundle demoArmedDebug \<and> sp demoArmedDebug = Some 0
   \<and> filter isBundleEvent (finishEvents (Finish demoCollab demoCfg demoAppStats demoPhaseTimes
         demoPlanner ''SELECT 1'' ''SELECT 1'' demoRes None demoArmedDebug))
       = [EvBuildStatementBundle [] [''recorded span''] [''$1''],
          EvBundleInsert ''SELECT _'' ''SELECT 1'' 0
            \<lparr>bundlePlan = [], bundleTrace = [''recorded span''],
             bundlePlaceholders = [''$1'']\<rparr>]"
  by code_simp

text \<open>
  C3, as amended. Whenever \<^verbatim>\<open>collectBundle\<close> is set and \<^verbatim>\<open>Setup\<close> armed a span,
  \<^verbatim>\<open>Finish\<close> builds one diagnostics bundle from the trace, the verbose plan string
  and the placeholders and persists it keyed by the fingerprint, the statement and the
  request id; when a completion callback was registered it then invokes the callback and
  increments the telemetry counter, once each, and when none was registered it does
  neither.
\<close>

theorem Finish_builds_and_persists_bundle:
  assumes "collectBundle ih" and "sp ih = Some s"
  shows "filter isBundleEvent (finishEvents (Finish co cfg appSt pt p ast sql res retErr ih))
         = [EvBuildStatementBundle (planStringForBundle co ih) (GetRecording co s) (Placeholders p),
            EvBundleInsert (fingerprint ih) ast (diagRequestID ih)
              \<lparr>bundlePlan = planStringForBundle co ih, bundleTrace = GetRecording co s,
               bundlePlaceholders = Placeholders p\<rparr>]
           @ (case finishCollectionDiagnostics ih of
                None \<Rightarrow> []
              | Some cb \<Rightarrow> [EvFinishCollectionDiagnostics cb, EvTelemetryInc])"
  using assms by (rule Finish_armed_bundle_events)

theorem Finish_builds_and_persists_bundle_witness:
  "collectBundle demoArmed \<and> sp demoArmed = Some 0
   \<and> filter isBundleEvent (finishEvents (Finish demoCollab demoCfg demoAppStats demoPhaseTimes
         demoPlanner ''SELECT 1'' ''SELECT 1'' demoRes None demoArmed))
       = [EvBuildStatementBundle [] [''recorded span''] [''$1''],
          EvBundleInsert ''SELECT _'' ''SELECT 1'' 7
            \<lparr>bundlePlan = [], bundleTrace = [''recorded span''],
             bundlePlaceholders = [''$1'']\<rparr>,
          EvFinishCollectionDiagnostics 3, EvTelemetryInc]"
proof -
  have h: "collectBundle demoArmed" "sp demoArmed = Some 0"
    by code_simp+
  have f: "fingerprint demoArmed = ''SELECT _''" "diagRequestID demoArmed = 7"
    "finishCollectionDiagnostics demoArmed = Some 3" "planStringForBundle demoCollab demoArmed = []"
    "GetRecording demoCollab 0 = [''recorded span'']" "Placeholders demoPlanner = [''$1'']"
    by code_simp+
  from Finish_builds_and_persists_bundle[OF h, where co=demoCollab and cfg=demoCfg
         and appSt=demoAppStats and pt=demoPhaseTimes and p=demoPlanner and ast="''SELECT 1''"
         and sql="''SELECT 1''" and res=demoRes and retErr=None]
  show ?thesis by (simp add: h f)
qed

text \<open>
  C4. \<^verbatim>\<open>Setup\<close> returns \<^verbatim>\<open>needFinish = false\<close> exactly when, after its mode switch,
  \<^verbatim>\<open>collectBundle\<close> is false, no trace-consumer callback is registered and the output
  mode is the unmodified one; it then creates no span, leaves the helper's span as it was
  and returns the context it was given. In every other case it starts exactly one
  full-recording span, keeps it in the helper and returns \<^verbatim>\<open>needFinish = true\<close> with
  the context augmented by that span.
\<close>

theorem Setup_needFinish_iff_something_to_trace:
  "(let out = Setup c cfg appSt p reg fp implicit ih nextSpan in
      (needFinish out = False \<longleftrightarrow>
         (\<not> collectBundle (setupHelper out) \<and> WithStatementTrace cfg = None
          \<and> outputMode ih = unmodifiedOutput))
    \<and> (\<not> needFinish out \<longrightarrow>
         sp (setupHelper out) = sp ih \<and> newCtx out = c \<and> setupNextSpan out = nextSpan
         \<and> filter isSpanStart (setupEvents out) = [])
    \<and> (needFinish out \<longrightarrow>
         sp (setupHelper out) = Some nextSpan \<and> newCtx out = CtxWithSpan c nextSpan
         \<and> setupNextSpan out = Suc nextSpan
         \<and> filter isSpanStart (setupEvents out)
             = [EvStartSnowballTrace c ''traced statement'' nextSpan]))"
  by (auto simp: Setup_def Let_def Setup_mode_def StartSnowballTrace_def
           split: outputMode.splits prod.splits)

theorem Setup_needFinish_iff_something_to_trace_witness:
  "\<not> needFinish (Setup (BaseCtx 0) demoCfg demoAppStats demoPlanner demoRegistry
                   ''SELECT 1'' True zeroHelper 0)
   \<and> sp (setupHelper (Setup (BaseCtx 0) demoCfg demoAppStats demoPlanner demoRegistry
                        ''SELECT 1'' True zeroHelper 0)) = None
   \<and> needFinish (Setup (BaseCtx 0) demoCfg demoAppStats demoPlanner demoRegistry
                   ''SELECT _'' True zeroHelper 0)
   \<and> sp (setupHelper (Setup (BaseCtx 0) demoCfg demoAppStats demoPlanner demoRegistry
                        ''SELECT _'' True zeroHelper 0)) = Some 0
   \<and> newCtx (Setup (BaseCtx 0) demoCfg demoAppStats demoPlanner demoRegistry
                ''SELECT _'' True zeroHelper 0) = CtxWithSpan (BaseCtx 0) 0"
proof -
  have a: "\<not> needFinish (Setup (BaseCtx 0) demoCfg demoAppStats demoPlanner demoRegistry
                   ''SELECT 1'' True zeroHelper 0)"
    by code_simp
  have b: "needFinish (Setup (BaseCtx 0) demoCfg demoAppStats demoPlanner demoRegistry
                   ''SELECT _'' True zeroHelper 0)"
    by code_simp
  have z: "sp zeroHelper = None" by code_simp
  from a b z
    Setup_needFinish_iff_something_to_trace[of "BaseCtx 0" demoCfg demoAppStats demoPlanner
       demoRegistry "''SELECT 1''" True zeroHelper 0]
    Setup_needFinish_iff_something_to_trace[of "BaseCtx 0" demoCfg demoAppStats demoPlanner
       demoRegistry "''SELECT _''" True zeroHelper 0]
  show ?thesis by (simp add: Let_def)
qed

text \<open>
  C5. If the helper holds no span, because \<^verbatim>\<open>Setup\<close> was never called or because
  \<^verbatim>\<open>Setup\<close> on a helper without a span returned \<^verbatim>\<open>needFinish = false\<close>, then
  \<^verbatim>\<open>Finish\<close> returns the error it was given, makes no call into any collaborator, and
  leaves the helper, the planner and the statement result as they were.
\<close>

theorem Finish_without_span_is_noop:
  "(sp ih = None \<longrightarrow>
      Finish co cfg appSt pt p ast sql res retErr ih =
        \<lparr>finishErr = retErr, finishHelper = ih, finishPlanner = p, finishRes = res,
         finishEvents = []\<rparr>)
   \<and> (sp ih = None \<and> \<not> needFinish (Setup c cfg appSt p reg fp implicit ih nextSpan) \<longrightarrow>
      Finish co cfg appSt pt p ast sql res retErr
          (setupHelper (Setup c cfg appSt p reg fp implicit ih nextSpan)) =
        \<lparr>finishErr = retErr,
         finishHelper = setupHelper (Setup c cfg appSt p reg fp implicit ih nextSpan),
         finishPlanner = p, finishRes = res, finishEvents = []\<rparr>)"
  by (auto simp: Finish_unarmed Setup_not_armed)

theorem Finish_without_span_is_noop_witness:
  "sp zeroHelper = None
   \<and> Finish demoCollab demoCfg demoAppStats demoPhaseTimes demoPlanner ''SELECT 1'' ''SELECT 1''
        demoRes (Some (Error ''exec failed'')) zeroHelper
      = \<lparr>finishErr = Some (Error ''exec failed''), finishHelper = zeroHelper,
         finishPlanner = demoPlanner, finishRes = demoRes, finishEvents = []\<rparr>
   \<and> \<not> needFinish (Setup (BaseCtx 0) demoCfg demoAppStats demoPlanner demoRegistry
                      ''SELECT 1'' True zeroHelper 0)
   \<and> finishEvents (Finish demoCollab demoCfg demoAppStats demoPhaseTimes demoPlanner
        ''SELECT 1'' ''SELECT 1'' demoRes None
        (setupHelper (Setup (BaseCtx 0) demoCfg demoAppStats demoPlanner demoRegistry
                        ''SELECT 1'' True zeroHelper 0))) = []"
proof -
  have z: "sp zeroHelper = None" by code_simp
  have a: "\<not> needFinish (Setup (BaseCtx 0) demoCfg demoAppStats demoPlanner demoRegistry
                   ''SELECT 1'' True zeroHelper 0)"
    by code_simp
  from z a
    Finish_without_span_is_noop[of zeroHelper demoCollab demoCfg demoAppStats demoPhaseTimes
      demoPlanner "''SELECT 1''" "''SELECT 1''" demoRes "Some (Error ''exec failed'')"
      "BaseCtx 0" demoRegistry "''SELECT 1''" True 0]
    Finish_without_span_is_noop[of zeroHelper demoCollab demoCfg demoAppStats demoPhaseTimes
      demoPlanner "''SELECT 1''" "''SELECT 1''" demoRes None
      "BaseCtx 0" demoRegistry "''SELECT 1''" True 0]
  show ?thesis by simp
qed

text \<open>
  C6, the claim as stated fails: \<^verbatim>\<open>Finish\<close> does not clear \<^verbatim>\<open>ih.sp\<close>, so a second
  call of the controller's \<^verbatim>\<open>Finish\<close> finishes the same span again and retrieves its
  recording again.
\<close>

theorem span_finished_twice_counterexample:
  "filter isSpanStart (snd (run demoExecution
       [CallSetOutputMode explainAnalyzeDebugOutput zeroFlags,
        CallSetup (BaseCtx 0) ''SELECT _'' True,
        CallFinish ''SELECT 1'' ''SELECT 1'' None,
        CallFinish ''SELECT 1'' ''SELECT 1'' None] demoState))
     = [EvStartSnowballTrace (BaseCtx 0) ''traced statement'' 0]
   \<and> filter isSpanEvent (snd (run demoExecution
       [CallSetOutputMode explainAnalyzeDebugOutput zeroFlags,
        CallSetup (BaseCtx 0) ''SELECT _'' True,
        CallFinish ''SELECT 1'' ''SELECT 1'' None,
        CallFinish ''SELECT 1'' ''SELECT 1'' None] demoState))
     = [EvSpanFinish 0, EvSpanGetRecording 0, EvSpanFinish 0, EvSpanGetRecording 0]"
  by code_simp

text \<open>
  C6, as amended. When \<^verbatim>\<open>Setup\<close> creates a span and the controller's \<^verbatim>\<open>Finish\<close> is
  then called exactly once, with any other public calls before and after it (and no
  second \<^verbatim>\<open>Setup\<close>), the calls on the span are exactly its \<^verbatim>\<open>Finish\<close> followed by
  its \<^verbatim>\<open>GetRecording\<close>: the span is finished once and its recording is retrieved
  after that. More generally, over any public calls that follow the \<^verbatim>\<open>Setup\<close> and hold
  no further \<^verbatim>\<open>Setup\<close>, every call of the controller's \<^verbatim>\<open>Finish\<close> finishes that same
  span and then retrieves its recording: the span is finished as many times as the
  controller's \<^verbatim>\<open>Finish\<close> is called.
\<close>

theorem span_finished_once_when_Finish_called_once:
  assumes "needFinish (Setup c (exCfg ex) (exAppStats ex) (stPlanner st) (exRegistry ex) fp
                         implicit (stHelper st) (stNextSpan st))"
    and "\<forall>c \<in> set mid. \<not> isSetupOrFinish c"
    and "\<forall>c \<in> set post. \<not> isSetupOrFinish c"
    and "\<forall>c \<in> set calls. \<not> isSetup c"
  shows "filter isSpanEvent
           (snd (run ex ([CallSetup c fp implicit] @ mid @ [CallFinish ast sql retErr] @ post) st))
         = [EvSpanFinish (stNextSpan st), EvSpanGetRecording (stNextSpan st)]
       \<and> filter isSpanEvent (snd (run ex ([CallSetup c fp implicit] @ calls) st))
         = concat (replicate (length (filter isFinish calls))
                     [EvSpanFinish (stNextSpan st), EvSpanGetRecording (stNextSpan st)])"
proof -
  obtain st1 evs1 where s1: "step ex (CallSetup c fp implicit) st = (st1, evs1)"
    by (cases "step ex (CallSetup c fp implicit) st")
  obtain st2 evs2 where s2: "run ex mid st1 = (st2, evs2)" by (cases "run ex mid st1")
  obtain st3 evs3 where s3: "step ex (CallFinish ast sql retErr) st2 = (st3, evs3)"
    by (cases "step ex (CallFinish ast sql retErr) st2")
  obtain st4 evs4 where s4: "run ex post st3 = (st4, evs4)" by (cases "run ex post st3")
  from s1 assms(1) have sp1: "sp (stHelper st1) = Some (stNextSpan st)"
    by (auto simp: Let_def Setup_armed)
  from s1 have e1: "filter isSpanEvent evs1 = []"
    by (auto simp: Let_def Setup_no_span_events)
  from run_other[OF assms(2), of ex st1] s2 sp1
  have sp2: "sp (stHelper st2) = Some (stNextSpan st)" and e2: "filter isSpanEvent evs2 = []"
    by simp_all
  from s3 have e3: "filter isSpanEvent evs3
                      = [EvSpanFinish (stNextSpan st), EvSpanGetRecording (stNextSpan st)]"
    by (auto simp: Let_def Finish_armed_span_events[OF sp2])
  from run_other[OF assms(3), of ex st3] s4 have e4: "filter isSpanEvent evs4 = []"
    by simp
  have "snd (run ex ([CallSetup c fp implicit] @ mid @ [CallFinish ast sql retErr] @ post) st)
          = evs1 @ evs2 @ evs3 @ evs4"
    using s1 s2 s3 s4 by (simp add: run_append)
  then have once: "filter isSpanEvent
           (snd (run ex ([CallSetup c fp implicit] @ mid @ [CallFinish ast sql retErr] @ post) st))
         = [EvSpanFinish (stNextSpan st), EvSpanGetRecording (stNextSpan st)]"
    by (simp add: e1 e2 e3 e4)
  obtain st5 evs5 where s5: "run ex calls st1 = (st5, evs5)" by (cases "run ex calls st1")
  from run_without_Setup[OF assms(4) sp1, of ex] s5
  have e5: "filter isSpanEvent evs5
              = concat (replicate (length (filter isFinish calls))
                          [EvSpanFinish (stNextSpan st), EvSpanGetRecording (stNextSpan st)])"
    by simp
  have "snd (run ex ([CallSetup c fp implicit] @ calls) st) = evs1 @ evs5"
    using s1 s5 by (simp add: run_append)
  then have many: "filter isSpanEvent (snd (run ex ([CallSetup c fp implicit] @ calls) st))
         = concat (replicate (length (filter isFinish calls))
                     [EvSpanFinish (stNextSpan st), EvSpanGetRecording (stNextSpan st)])"
    by (simp add: e1 e5)
  from once many show ?thesis by (rule conjI)
qed

theorem span_finished_once_when_Finish_called_once_witness:
  "needFinish (Setup (BaseCtx 0) (exCfg demoExecution) (exAppStats demoExecution)
                 (stPlanner demoState) (exRegistry demoExecution) ''SELECT _'' True
                 (stHelper demoState) (stNextSpan demoState))
   \<and> filter isSpanEvent (snd (run demoExecution
        ([CallSetup (BaseCtx 0) ''SELECT _'' True]
         @ [CallRecordExplainPlan (Some 0), CallPlanForStats]
         @ [CallFinish ''SELECT 1'' ''SELECT 1'' None]
         @ [CallShouldDiscardRows]) demoState))
     = [EvSpanFinish 0, EvSpanGetRecording 0]
   \<and> filter isSpanEvent (snd (run demoExecution
        ([CallSetup (BaseCtx 0) ''SELECT _'' True]
         @ [CallFinish ''SELECT 1'' ''SELECT 1'' None, CallPlanForStats,
            CallFinish ''SELECT 1'' ''SELECT 1'' (Some (Error ''exec failed'')),
            CallSetDiscardRows, CallFinish ''SELECT 1'' ''SELECT 1'' None]) demoState))
     = [EvSpanFinish 0, EvSpanGetRecording 0, EvSpanFinish 0, EvSpanGetRecording 0,
        EvSpanFinish 0, EvSpanGetRecording 0]"
proof -
  have a: "needFinish (Setup (BaseCtx 0) (exCfg demoExecution) (exAppStats demoExecution)
                 (stPlanner demoState) (exRegistry demoExecution) ''SELECT _'' True
                 (stHelper demoState) (stNextSpan demoState))"
    by code_simp
  have b: "\<forall>c \<in> set [CallRecordExplainPlan (Some 0), CallPlanForStats]. \<not> isSetupOrFinish c"
    by simp
  have c: "\<forall>c \<in> set [CallShouldDiscardRows]. \<not> isSetupOrFinish c" by simp
  have d: "\<forall>c \<in> set [CallFinish ''SELECT 1'' ''SELECT 1'' None, CallPlanForStats,
            CallFinish ''SELECT 1'' ''SELECT 1'' (Some (Error ''exec failed'')),
            CallSetDiscardRows, CallFinish ''SELECT 1'' ''SELECT 1'' None]. \<not> isSetup c"
    by simp
  have n: "stNextSpan demoState = 0" by code_simp
  have k: "concat (replicate (length (filter isFinish
             [CallFinish ''SELECT 1'' ''SELECT 1'' None, CallPlanForStats,
              CallFinish ''SELECT 1'' ''SELECT 1'' (Some (Error ''exec failed'')),
              CallSetDiscardRows, CallFinish ''SELECT 1'' ''SELECT 1'' None]))
             [EvSpanFinish 0, EvSpanGetRecording 0])
           = [EvSpanFinish 0, EvSpanGetRecording 0, EvSpanFinish 0, EvSpanGetRecording 0,
              EvSpanFinish 0, EvSpanGetRecording 0]"
    by code_simp
  from span_finished_once_when_Finish_called_once[OF a b c d, of "''SELECT 1''" "''SELECT 1''" None] a
  show ?thesis by (simp only: n k)
qed

text \<open>
  C7, the claim as stated fails: the loop over the rows returns at the first
  \<^verbatim>\<open>AddRow\<close> that fails. On a result whose \<^verbatim>\<open>AddRow\<close> fails, a plan of three lines
  leaves the result with no row instead of five.
\<close>

theorem explain_analyze_rows_cut_short_counterexample:
  "outputMode demoArmedPlan = explainAnalyzePlanOutput \<and> sp demoArmedPlan = Some 0
   \<and> resErr demoRes = None
   \<and> planRowsForExplainAnalyze demoCollabBroken deterministicPhaseTimes demoArmedPlan
       = [''planning time: 10us'', ''execution time: 100us'', ''scan: t'']
   \<and> resRows (finishRes (Finish demoCollabBroken demoCfg demoAppStats demoPhaseTimes
        demoPlanner ''SELECT 1'' ''SELECT 1'' demoRes None demoArmedPlan)) = []"
  by code_simp

text \<open>
  C7, as amended. When the output mode is ExplainAnalyzePlan on a helper that
  \<^verbatim>\<open>Setup\<close> armed, the incoming error is nil, the result carries no prior error and no
  \<^verbatim>\<open>AddRow\<close> fails (\<^verbatim>\<open>Finish\<close> returns nil), the result receives exactly the plan
  lines, as \<^verbatim>\<open>planRowsForExplainAnalyze\<close> renders them from the phase times in force,
  and two more rows: the empty string and then the literal text
  "WARNING: this statement is experimental!".
\<close>

theorem explain_analyze_rows_are_plan_lines_plus_two:
  assumes "outputMode ih = explainAnalyzePlanOutput" and "sp ih = Some s"
    and "resErr res = None"
    and "finishErr (Finish co cfg appSt pt p ast sql res None ih) = None"
  shows "resRows (finishRes (Finish co cfg appSt pt p ast sql res None ih))
           = resRows res
             @ map (\<lambda>row. [row])
                 (planRowsForExplainAnalyze co
                    (if DeterministicExplainAnalyze cfg then deterministicPhaseTimes else pt) ih)
             @ [ [''''], [''WARNING: this statement is experimental!''] ]
       \<and> length (resRows (finishRes (Finish co cfg appSt pt p ast sql res None ih)))
           = length (resRows res)
             + (length (planRowsForExplainAnalyze co
                  (if DeterministicExplainAnalyze cfg then deterministicPhaseTimes else pt) ih) + 2)"
proof -
  let ?pt = "if DeterministicExplainAnalyze cfg then deterministicPhaseTimes else pt"
  let ?rows = "planRowsForExplainAnalyze co ?pt ih"
  from assms(2) obtain e1 r1 evs1 e2 r2 evs3 p' evs4 where
    cb: "Finish_collectBundle co cfg p ast (GetRecording co s) res None ih = (e1, r1, evs1)" and
    pl: "Finish_explainAnalyzePlan co cfg pt r1 e1 ih = (e2, r2, evs3)" and
    fin: "Finish co cfg appSt pt p ast sql res None ih =
       \<lparr>finishErr = e2, finishHelper = ih, finishPlanner = p', finishRes = r2,
        finishEvents = [EvSpanFinish s, EvSpanGetRecording s] @ evs1
          @ Finish_withStatementTrace (GetRecording co s) sql ih @ evs3 @ evs4\<rparr>"
    by (rule Finish_armedE)
  from assms(1) have nd: "outputMode ih \<noteq> explainAnalyzeDebugOutput" by simp
  from collectBundle_step_passthrough[OF nd cb] have e1: "e1 = None" and r1: "r1 = res"
    by simp_all
  from assms(4) fin have e2: "e2 = None" by simp
  let ?res2 = "res\<lparr>resStmtType := ExplainAnalyze, resColumns := ExplainPlanColumns\<rparr>"
  from pl assms(1,3) e1 r1 e2 obtain evs' where
    ar: "addRows co (?rows @ [''''] @ [experimentalWarning]) ?res2 = (None, r2, evs')"
    by (auto simp: Finish_explainAnalyzePlan_def setExplainAnalyzePlanResult_def Let_def
             split: prod.splits)
  from addRows_rows[OF ar] have
    "resRows r2 = resRows res @ map (\<lambda>row. [row]) ?rows
                    @ [ [''''], [''WARNING: this statement is experimental!''] ]"
    by (simp add: experimentalWarning_def)
  then show ?thesis by (simp add: fin)
qed

theorem explain_analyze_rows_are_plan_lines_plus_two_witness:
  "outputMode demoArmedPlan = explainAnalyzePlanOutput \<and> sp demoArmedPlan = Some 0
   \<and> resErr demoRes = None
   \<and> finishErr (Finish demoCollab demoCfg demoAppStats demoPhaseTimes demoPlanner
        ''SELECT 1'' ''SELECT 1'' demoRes None demoArmedPlan) = None
   \<and> resRows (finishRes (Finish demoCollab demoCfg demoAppStats demoPhaseTimes demoPlanner
        ''SELECT 1'' ''SELECT 1'' demoRes None demoArmedPlan))
      = [ [''planning time: 10us''], [''execution time: 100us''], [''scan: t''], [''''],
         [''WARNING: this statement is experimental!''] ]"
proof -
  have h: "outputMode demoArmedPlan = explainAnalyzePlanOutput" "sp demoArmedPlan = Some 0"
    "resErr demoRes = None"
    "finishErr (Finish demoCollab demoCfg demoAppStats demoPhaseTimes demoPlanner
        ''SELECT 1'' ''SELECT 1'' demoRes None demoArmedPlan) = None"
    by code_simp+
  have r: "planRowsForExplainAnalyze demoCollab deterministicPhaseTimes demoArmedPlan
             = [''planning time: 10us'', ''execution time: 100us'', ''scan: t'']"
    "DeterministicExplainAnalyze demoCfg" "resRows demoRes = []"
    by code_simp+
  from explain_analyze_rows_are_plan_lines_plus_two[OF h]
  show ?thesis by (simp add: h r)
qed

text \<open>
  C8. A sub-flow fails when its \<^verbatim>\<open>AddTrace\<close> or its \<^verbatim>\<open>GetNetworkBytesSent\<close> returns
  an error (\<open>spec_flowFails\<close>); the bytes of any other sub-flow are the sum, over its
  nodes, of what \<^verbatim>\<open>GetNetworkBytesSent\<close> reports (\<open>spec_flowBytesSent\<close>). The total
  that the loop of \<^verbatim>\<open>Finish\<close> computes is the sum of the bytes of the sub-flows that do
  not fail: a failing sub-flow adds nothing and every other one still adds its bytes.
  That total is what an armed \<^verbatim>\<open>Finish\<close> records when the statistics record exists.
  The error \<^verbatim>\<open>Finish\<close> returns is the same whatever the two analyzer methods return
  and whichever sub-flows the plan has.
\<close>

theorem failing_flows_are_skipped:
  "fst (snd (flowLoop co ast trace flows 0))
     = sum_list (map (spec_flowBytesSent co trace) (filter (\<lambda>a. \<not> spec_flowFails co trace a) flows))
   \<and> (sp ih = Some s \<longrightarrow>
        filter isStatsRecord (finishEvents (Finish co cfg appSt pt p ast sql res retErr ih))
          = (case getStatsForStmt appSt (fingerprint ih) (implicitTxn ih)
                    (finishErr (Finish co cfg appSt pt p ast sql res retErr ih)) False of
               None \<Rightarrow> []
             | Some r \<Rightarrow>
                 [EvStatsRecord r 1
                    (sint (sum_list (map (spec_flowBytesSent co (GetRecording co s))
                       (filter (\<lambda>a. \<not> spec_flowFails co (GetRecording co s) a)
                          (distSQLFlowInfos p)))))]))
   \<and> finishErr (Finish (co\<lparr>AddTrace := addTrace', GetNetworkBytesSent := getBytes'\<rparr>) cfg appSt pt
                  (p\<lparr>distSQLFlowInfos := flows'\<rparr>) ast sql res retErr ih)
       = finishErr (Finish co cfg appSt pt p ast sql res retErr ih)"
proof -
  obtain fs n evs where loop: "flowLoop co ast trace flows 0 = (fs, n, evs)"
    by (cases "flowLoop co ast trace flows 0")
  from flowLoop_total[OF loop] have
    1: "fst (snd (flowLoop co ast trace flows 0))
          = sum_list (map (spec_flowBytesSent co trace) (filter (\<lambda>a. \<not> spec_flowFails co trace a) flows))"
    by (simp add: loop spec_networkBytesSent_filter)
  have 2: "filter isStatsRecord (finishEvents (Finish co cfg appSt pt p ast sql res retErr ih))
          = (case getStatsForStmt appSt (fingerprint ih) (implicitTxn ih)
                    (finishErr (Finish co cfg appSt pt p ast sql res retErr ih)) False of
               None \<Rightarrow> []
             | Some r \<Rightarrow>
                 [EvStatsRecord r 1
                    (sint (sum_list (map (spec_flowBytesSent co (GetRecording co s))
                       (filter (\<lambda>a. \<not> spec_flowFails co (GetRecording co s) a)
                          (distSQLFlowInfos p)))))])"
    if "sp ih = Some s"
    using Finish_armed_stats_record[OF that, of co cfg appSt pt p ast sql res retErr]
    unfolding spec_networkBytesSent_filter .
  have 3: "finishErr (Finish (co\<lparr>AddTrace := addTrace', GetNetworkBytesSent := getBytes'\<rparr>)
                  cfg appSt pt (p\<lparr>distSQLFlowInfos := flows'\<rparr>) ast sql res retErr ih)
       = finishErr (Finish co cfg appSt pt p ast sql res retErr ih)"
    by (rule Finish_error_independent_of_analysis)
  from 1 2 3 show ?thesis by blast
qed

theorem failing_flows_are_skipped_witness:
  "spec_flowFails demoCollab [''recorded span''] 0 \<and> spec_flowFails demoCollab [''recorded span''] 1
   \<and> \<not> spec_flowFails demoCollab [''recorded span''] 2
   \<and> spec_flowBytesSent demoCollab [''recorded span''] 2 = 30
   \<and> fst (snd (flowLoop demoCollab ''SELECT 1'' [''recorded span''] [0, 2, 1, 3] 0)) = 60
   \<and> sp demoArmed = Some 0
   \<and> filter isStatsRecord (finishEvents (Finish demoCollab demoCfg demoAppStats demoPhaseTimes
         demoPlanner ''SELECT 1'' ''SELECT 1'' demoRes None demoArmed))
       = [EvStatsRecord 5 1 60]"
proof -
  have f: "spec_flowFails demoCollab [''recorded span''] 0" "spec_flowFails demoCollab [''recorded span''] 1"
    "\<not> spec_flowFails demoCollab [''recorded span''] 2"
    "spec_flowBytesSent demoCollab [''recorded span''] 2 = 30"
    by code_simp+
  have h: "sp demoArmed = Some 0" by code_simp
  have total: "sum_list (map (spec_flowBytesSent demoCollab [''recorded span''])
                 (filter (\<lambda>a. \<not> spec_flowFails demoCollab [''recorded span''] a) [0, 2, 1, 3])) = 60"
    by code_simp
  have g: "GetRecording demoCollab 0 = [''recorded span'']"
    "distSQLFlowInfos demoPlanner = [0, 2, 1, 3]"
    "getStatsForStmt demoAppStats (fingerprint demoArmed) (implicitTxn demoArmed)
       (finishErr (Finish demoCollab demoCfg demoAppStats demoPhaseTimes
         demoPlanner ''SELECT 1'' ''SELECT 1'' demoRes None demoArmed)) False = Some 5"
    by code_simp+
  note t = failing_flows_are_skipped[of demoCollab "''SELECT 1''" "[''recorded span'']"
         "[0, 2, 1, 3]" demoArmed 0 demoCfg demoAppStats demoPhaseTimes demoPlanner "''SELECT 1''"
         demoRes None]
  from t have "fst (snd (flowLoop demoCollab ''SELECT 1'' [''recorded span''] [0, 2, 1, 3] 0))
      = sum_list (map (spec_flowBytesSent demoCollab [''recorded span''])
                 (filter (\<lambda>a. \<not> spec_flowFails demoCollab [''recorded span''] a) [0, 2, 1, 3]))"
    by (rule conjunct1)
  from this total
  have 1: "fst (snd (flowLoop demoCollab ''SELECT 1'' [''recorded span''] [0, 2, 1, 3] 0)) = 60"
    by (rule trans)
  from t[THEN conjunct2, THEN conjunct1, rule_format, OF h]
  have 2: "filter isStatsRecord (finishEvents (Finish demoCollab demoCfg demoAppStats
         demoPhaseTimes demoPlanner ''SELECT 1'' ''SELECT 1'' demoRes None demoArmed))
       = [EvStatsRecord 5 1 60]"
    unfolding g total by simp
  from f 1 h 2 show ?thesis by (intro conjI)
qed

text \<open>
  C9. When \<^verbatim>\<open>TestingKnobs.DeterministicExplainAnalyze\<close> is set, \<^verbatim>\<open>Finish\<close> hands the
  constant table \<^verbatim>\<open>deterministicPhaseTimes\<close> to \<^verbatim>\<open>setExplainAnalyzePlanResult\<close> and never
  reads the live phase times of the statistics collector: two \<^verbatim>\<open>Finish\<close> calls that
  differ only in the live phase times return the same error, write the same rows (the
  "planning time" and "execution time" lines among them) and make the same calls.
\<close>

theorem deterministic_phase_times_fix_the_output:
  assumes "DeterministicExplainAnalyze cfg"
  shows "Finish co cfg appSt pt1 p ast sql res retErr ih
           = Finish co cfg appSt pt2 p ast sql res retErr ih
       \<and> Finish_explainAnalyzePlan co cfg pt1 res retErr ih
           = (if outputMode ih = explainAnalyzePlanOutput \<and> retErr = None
              then setExplainAnalyzePlanResult co res deterministicPhaseTimes ih
              else (retErr, res, []))"
  using assms Finish_deterministic_phase_times[OF assms, of co appSt pt1 p ast sql res retErr ih pt2]
  by (simp add: Finish_explainAnalyzePlan_def)

theorem deterministic_phase_times_fix_the_output_witness:
  "DeterministicExplainAnalyze demoCfg
   \<and> Finish demoCollab demoCfg demoAppStats demoPhaseTimes demoPlanner
        ''SELECT 1'' ''SELECT 1'' demoRes None demoArmedPlan
      = Finish demoCollab demoCfg demoAppStats demoPhaseTimesLate demoPlanner
        ''SELECT 1'' ''SELECT 1'' demoRes None demoArmedPlan
   \<and> take 2 (resRows (finishRes (Finish demoCollab demoCfg demoAppStats demoPhaseTimesLate
        demoPlanner ''SELECT 1'' ''SELECT 1'' demoRes None demoArmedPlan)))
      = [ [''planning time: 10us''], [''execution time: 100us''] ]"
proof -
  have h: "DeterministicExplainAnalyze demoCfg" by code_simp
  have r: "take 2 (resRows (finishRes (Finish demoCollab demoCfg demoAppStats demoPhaseTimesLate
        demoPlanner ''SELECT 1'' ''SELECT 1'' demoRes None demoArmedPlan)))
      = [ [''planning time: 10us''], [''execution time: 100us''] ]"
    by code_simp
  from deterministic_phase_times_fix_the_output[OF h, of demoCollab demoAppStats demoPhaseTimes
         demoPlanner "''SELECT 1''" "''SELECT 1''" demoRes None demoArmedPlan demoPhaseTimesLate] h r
  show ?thesis by blast
qed

text \<open>
  C10. If a plan has been recorded and emitting it with the verbose flags fails,
  \<^verbatim>\<open>planStringForBundle\<close> returns the text "error emitting plan: " followed by the text
  of the error, which is not the empty string; an armed \<^verbatim>\<open>Finish\<close> that collects a
  bundle builds and persists the bundle with that text as its plan string. When emitting
  the plan with the value-hiding flags fails, \<^verbatim>\<open>PlanForStats\<close> returns no tree (and logs
  a warning).
\<close>

theorem plan_string_for_bundle_on_render_failure:
  assumes "explainPlan ih = Some pl"
    and "emitExplain co (NewOutputBuilder (zeroFlags\<lparr>Verbose := True, ShowTypes := True\<rparr>))
           (evalCtx ih) (codec ih) pl (distribution ih) (vectorized ih) = Inl err"
  shows "planStringForBundle co ih = ''error emitting plan: '' @ errorText err
       \<and> planStringForBundle co ih \<noteq> []
       \<and> (collectBundle ih \<and> sp ih = Some s \<longrightarrow>
            filter isBundleEvent
                (finishEvents (Finish co cfg appSt pt p ast sql res retErr ih))
              = [EvBuildStatementBundle (''error emitting plan: '' @ errorText err)
                   (GetRecording co s) (Placeholders p),
                 EvBundleInsert (fingerprint ih) ast (diagRequestID ih)
                   \<lparr>bundlePlan = ''error emitting plan: '' @ errorText err,
                    bundleTrace = GetRecording co s, bundlePlaceholders = Placeholders p\<rparr>]
                @ (case finishCollectionDiagnostics ih of
                     None \<Rightarrow> []
                   | Some cb \<Rightarrow> [EvFinishCollectionDiagnostics cb, EvTelemetryInc]))
       \<and> (\<forall>err'. emitExplain co (NewOutputBuilder (zeroFlags\<lparr>HideValues := True\<rparr>))
                    (evalCtx ih) (codec ih) pl (distribution ih) (vectorized ih) = Inl err'
            \<longrightarrow> PlanForStats co ih
                  = (None, [EvLogWarning (''unable to emit explain plan tree: ''
                                          @ errorText err')]))"
proof -
  from assms have ps: "planStringForBundle co ih = ''error emitting plan: '' @ errorText err"
    by (simp add: planStringForBundle_def)
  have b: "filter isBundleEvent
                (finishEvents (Finish co cfg appSt pt p ast sql res retErr ih))
              = [EvBuildStatementBundle (''error emitting plan: '' @ errorText err)
                   (GetRecording co s) (Placeholders p),
                 EvBundleInsert (fingerprint ih) ast (diagRequestID ih)
                   \<lparr>bundlePlan = ''error emitting plan: '' @ errorText err,
                    bundleTrace = GetRecording co s, bundlePlaceholders = Placeholders p\<rparr>]
                @ (case finishCollectionDiagnostics ih of
                     None \<Rightarrow> []
                   | Some cb \<Rightarrow> [EvFinishCollectionDiagnostics cb, EvTelemetryInc])"
    if "collectBundle ih" "sp ih = Some s"
    using Finish_armed_bundle_events[OF that, of co cfg appSt pt p ast sql res retErr]
    by (simp only: ps)
  from assms(1) have st: "PlanForStats co ih
                  = (None, [EvLogWarning (''unable to emit explain plan tree: ''
                                          @ errorText err')])"
    if "emitExplain co (NewOutputBuilder (zeroFlags\<lparr>HideValues := True\<rparr>))
                    (evalCtx ih) (codec ih) pl (distribution ih) (vectorized ih) = Inl err'"
    for err'
    using that by (simp add: PlanForStats_def)
  from ps b st show ?thesis by simp
qed

theorem plan_string_for_bundle_on_render_failure_witness:
  "explainPlan demoArmedBadPlan = Some 0
   \<and> emitExplain demoCollab (NewOutputBuilder (zeroFlags\<lparr>Verbose := True, ShowTypes := True\<rparr>))
        (evalCtx demoArmedBadPlan) (codec demoArmedBadPlan) 0 (distribution demoArmedBadPlan)
        (vectorized demoArmedBadPlan) = Inl (Error ''no plan'')
   \<and> planStringForBundle demoCollab demoArmedBadPlan = ''error emitting plan: no plan''
   \<and> PlanForStats demoCollab demoArmedBadPlan
       = (None, [EvLogWarning ''unable to emit explain plan tree: no plan''])
   \<and> filter isBundleEvent (finishEvents (Finish demoCollab demoCfg demoAppStats demoPhaseTimes
         demoPlanner ''SELECT 1'' ''SELECT 1'' demoRes None demoArmedBadPlan))
       = [EvBuildStatementBundle ''error emitting plan: no plan'' [''recorded span''] [''$1''],
          EvBundleInsert ''SELECT _'' ''SELECT 1'' 7
            \<lparr>bundlePlan = ''error emitting plan: no plan'', bundleTrace = [''recorded span''],
             bundlePlaceholders = [''$1'']\<rparr>,
          EvFinishCollectionDiagnostics 3, EvTelemetryInc]"
proof -
  have h: "explainPlan demoArmedBadPlan = Some 0"
    "emitExplain demoCollab (NewOutputBuilder (zeroFlags\<lparr>Verbose := True, ShowTypes := True\<rparr>))
        (evalCtx demoArmedBadPlan) (codec demoArmedBadPlan) 0 (distribution demoArmedBadPlan)
        (vectorized demoArmedBadPlan) = Inl (Error ''no plan'')"
    by code_simp+
  have g: "emitExplain demoCollab (NewOutputBuilder (zeroFlags\<lparr>HideValues := True\<rparr>))
        (evalCtx demoArmedBadPlan) (codec demoArmedBadPlan) 0 (distribution demoArmedBadPlan)
        (vectorized demoArmedBadPlan) = Inl (Error ''no plan'')"
    "collectBundle demoArmedBadPlan" "sp demoArmedBadPlan = Some 0"
    "fingerprint demoArmedBadPlan = ''SELECT _''" "diagRequestID demoArmedBadPlan = 7"
    "finishCollectionDiagnostics demoArmedBadPlan = Some 3"
    "GetRecording demoCollab 0 = [''recorded span'']" "Placeholders demoPlanner = [''$1'']"
    by code_simp+
  from plan_string_for_bundle_on_render_failure[OF h, of 0 demoCfg demoAppStats demoPhaseTimes
         demoPlanner "''SELECT 1''" "''SELECT 1''" demoRes None]
  show ?thesis by (simp add: h g)
qed

end
